theory Spec2Isabelle
  imports Main "HOL-Library.List_Lexorder" "HOL-Library.Char_ord" "HOL-Library.Multiset"
begin

section \<open>Values of the document store\<close>

text \<open>
  The engine of \<^verbatim>\<open>src/database/TMUDatabase.js\<close> works on plain JavaScript values.
  A value is \<^verbatim>\<open>undefined\<close>, \<^verbatim>\<open>null\<close>, a boolean, a number, a string, a
  \<^verbatim>\<open>Date\<close>, an array or a plain object.  Numbers are the integers together with
  \<^verbatim>\<open>NaN\<close> and \<^verbatim>\<open>Infinity\<close> (doubles are exact on the integers the engine
  meets; fractions and rounding are outside the model).  A \<^verbatim>\<open>Date\<close> is represented
  by the text that \<^verbatim>\<open>toISOString\<close> and \<^verbatim>\<open>toJSON\<close> return for it.  An object is the
  list of its own enumerable properties in insertion order.

  Object identity is not part of this first model: \<^verbatim>\<open>===\<close> between two arrays, objects
  or dates is \<^verbatim>\<open>false\<close>, which is what the engine sees as long as documents, queries
  and index keys share no object.  The shared-object behaviour of the update path is
  modelled separately, on an explicit heap, in a later section.
\<close>

datatype jv =
    Undefined
  | Null
  | Bool bool
  | Num int
  | NaN
  | PInf
  | Str string
  | Date string
  | Arr "jv list"
  | Obj "(string \<times> jv) list"

type_synonym document = "(string \<times> jv) list"

text \<open>
  What the engine throws: a \<^verbatim>\<open>TypeError\<close> or \<^verbatim>\<open>SyntaxError\<close> of the platform, the
  \<^verbatim>\<open>Error\<close> of a duplicate key (with the field it names), and the aggregate validation
  error of a model (with a message for every failing field).  \<open>Unsupported\<close> is not an
  error of the engine: it marks the inputs on which the result leaves the values of the
  model (a fraction, a hole in an array, a named property written on an array or a
  date, an address of the heap model that holds no cell).
\<close>

datatype error =
    TypeError
  | SyntaxError
  | DuplicateKey string
  | ValidationError "(string \<times> jv) list"
  | Unsupported

subsection \<open>Decimal text of numbers\<close>

definition digit_char :: "nat \<Rightarrow> char" where
  "digit_char d = ''0123456789'' ! (d mod 10)"

function show_nat :: "nat \<Rightarrow> string" where
  "show_nat n = (if n < 10 then [digit_char n] else show_nat (n div 10) @ [digit_char n])"
  by pat_completeness auto
termination
  by (relation "measure id") auto

declare show_nat.simps [simp del]

definition show_int :: "int \<Rightarrow> string" where
  "show_int i = (if i < 0 then CHR ''-'' # show_nat (nat (- i)) else show_nat (nat i))"

definition is_digit :: "char \<Rightarrow> bool" where
  "is_digit c = (c \<in> set ''0123456789'')"

definition digit_val :: "char \<Rightarrow> nat" where
  "digit_val c = of_char c - 48"

definition nat_of_digits :: "string \<Rightarrow> nat option" where
  "nat_of_digits s =
     (if s \<noteq> [] \<and> list_all is_digit s
      then Some (foldl (\<lambda>acc c. 10 * acc + digit_val c) 0 s) else None)"

text \<open>An array index is the canonical decimal text of a natural number.\<close>

definition array_index :: "string \<Rightarrow> nat option" where
  "array_index key =
     (case nat_of_digits key of
        None \<Rightarrow> None
      | Some i \<Rightarrow> if show_nat i = key then Some i else None)"

subsection \<open>Coercions\<close>

definition is_space :: "char \<Rightarrow> bool" where
  "is_space c = (c \<in> set [CHR '' '', CHR 0x09, CHR 0x0A, CHR 0x0B, CHR 0x0C, CHR 0x0D])"

definition trim :: "string \<Rightarrow> string" where
  "trim s = rev (dropWhile is_space (rev (dropWhile is_space s)))"

fun join :: "string \<Rightarrow> string list \<Rightarrow> string" where
  "join sep [] = []"
| "join sep [s] = s"
| "join sep (s # t # ss) = s @ sep @ join sep (t # ss)"

text \<open>
  \<^verbatim>\<open>ToString\<close>.  An array joins the texts of its elements with commas, \<^verbatim>\<open>null\<close> and
  \<^verbatim>\<open>undefined\<close> elements giving the empty text.  The text of a \<^verbatim>\<open>Date\<close> depends on the
  time zone of the process; the model uses the ISO text.
\<close>

fun to_str :: "jv \<Rightarrow> string" where
  "to_str Undefined = ''undefined''"
| "to_str Null = ''null''"
| "to_str (Bool b) = (if b then ''true'' else ''false'')"
| "to_str (Num n) = show_int n"
| "to_str NaN = ''NaN''"
| "to_str PInf = ''Infinity''"
| "to_str (Str s) = s"
| "to_str (Date d) = d"
| "to_str (Arr xs) =
     join '','' (map (\<lambda>x. if x = Undefined \<or> x = Null then [] else to_str x) xs)"
| "to_str (Obj kvs) = ''[object Object]''"

text \<open>
  \<^verbatim>\<open>StringToNumber\<close> on the integer domain: surrounding white space is dropped, the empty
  text is 0, an optionally signed run of digits is its value, \<^verbatim>\<open>Infinity\<close> is
  itself, everything else is \<^verbatim>\<open>NaN\<close>.
\<close>

definition str_to_num :: "string \<Rightarrow> jv" where
  "str_to_num s =
     (let t = trim s in
      if t = [] then Num 0
      else if t = ''Infinity'' \<or> t = ''+Infinity'' then PInf
      else case t of
          c # r \<Rightarrow>
            (if c = CHR ''-'' then (case nat_of_digits r of Some n \<Rightarrow> Num (- int n) | None \<Rightarrow> NaN)
             else if c = CHR ''+'' then (case nat_of_digits r of Some n \<Rightarrow> Num (int n) | None \<Rightarrow> NaN)
             else (case nat_of_digits t of Some n \<Rightarrow> Num (int n) | None \<Rightarrow> NaN))
        | [] \<Rightarrow> Num 0)"

text \<open>
  \<^verbatim>\<open>ToPrimitive\<close> with hint number, then \<^verbatim>\<open>ToNumber\<close>.  The time value of a
  \<^verbatim>\<open>Date\<close> is not kept by the model, so a date compared with a number counts as
  \<^verbatim>\<open>NaN\<close>; two dates are compared directly in \<open>js_lt\<close>.
\<close>

fun to_primitive :: "jv \<Rightarrow> jv" where
  "to_primitive (Arr xs) = Str (to_str (Arr xs))"
| "to_primitive (Obj kvs) = Str (to_str (Obj kvs))"
| "to_primitive v = v"

fun prim_to_num :: "jv \<Rightarrow> jv" where
  "prim_to_num Undefined = NaN"
| "prim_to_num Null = Num 0"
| "prim_to_num (Bool b) = Num (if b then 1 else 0)"
| "prim_to_num (Num n) = Num n"
| "prim_to_num PInf = PInf"
| "prim_to_num (Str s) = str_to_num s"
| "prim_to_num v = NaN"

definition to_num :: "jv \<Rightarrow> jv" where
  "to_num v = prim_to_num (to_primitive v)"

fun truthy :: "jv \<Rightarrow> bool" where
  "truthy Undefined = False"
| "truthy Null = False"
| "truthy (Bool b) = b"
| "truthy (Num n) = (n \<noteq> 0)"
| "truthy NaN = False"
| "truthy (Str s) = (s \<noteq> [])"
| "truthy v = True"

text \<open>\<^verbatim>\<open>a || b\<close>\<close>

definition js_or :: "jv \<Rightarrow> jv \<Rightarrow> jv" where
  "js_or a b = (if truthy a then a else b)"

text \<open>\<^verbatim>\<open>typeof v === 'object'\<close>\<close>

fun typeof_object :: "jv \<Rightarrow> bool" where
  "typeof_object Null = True"
| "typeof_object (Date d) = True"
| "typeof_object (Arr xs) = True"
| "typeof_object (Obj kvs) = True"
| "typeof_object v = False"

text \<open>\<^verbatim>\<open>a === b\<close> and the \<^verbatim>\<open>SameValueZero\<close> of \<^verbatim>\<open>Map\<close>, \<^verbatim>\<open>Set\<close> and \<^verbatim>\<open>includes\<close>.\<close>

fun strict_eq :: "jv \<Rightarrow> jv \<Rightarrow> bool" where
  "strict_eq Undefined Undefined = True"
| "strict_eq Null Null = True"
| "strict_eq (Bool a) (Bool b) = (a = b)"
| "strict_eq (Num a) (Num b) = (a = b)"
| "strict_eq PInf PInf = True"
| "strict_eq (Str a) (Str b) = (a = b)"
| "strict_eq a b = False"

fun same_value_zero :: "jv \<Rightarrow> jv \<Rightarrow> bool" where
  "same_value_zero NaN NaN = True"
| "same_value_zero a b = strict_eq a b"

text \<open>
  The relational comparison \<^verbatim>\<open>a < b\<close>: \<open>None\<close> is the undefined outcome (a
  \<^verbatim>\<open>NaN\<close> operand), which every operator turns into \<^verbatim>\<open>false\<close>.
\<close>

fun num_lt :: "jv \<Rightarrow> jv \<Rightarrow> bool option" where
  "num_lt (Num a) (Num b) = Some (a < b)"
| "num_lt (Num a) PInf = Some True"
| "num_lt PInf (Num b) = Some False"
| "num_lt PInf PInf = Some False"
| "num_lt a b = None"

definition js_lt :: "jv \<Rightarrow> jv \<Rightarrow> bool option" where
  "js_lt a b =
     (case (to_primitive a, to_primitive b) of
        (Str s, Str t) \<Rightarrow> Some (s < t)
      | (Date s, Date t) \<Rightarrow> Some (s < t)
      | (x, y) \<Rightarrow> num_lt (prim_to_num x) (prim_to_num y))"

definition lt :: "jv \<Rightarrow> jv \<Rightarrow> bool" where "lt a b = (js_lt a b = Some True)"
definition gt :: "jv \<Rightarrow> jv \<Rightarrow> bool" where "gt a b = (js_lt b a = Some True)"
definition lte :: "jv \<Rightarrow> jv \<Rightarrow> bool" where "lte a b = (js_lt b a = Some False)"
definition gte :: "jv \<Rightarrow> jv \<Rightarrow> bool" where "gte a b = (js_lt a b = Some False)"

text \<open>\<^verbatim>\<open>a + b\<close>: concatenation as soon as one operand is a text, addition otherwise.\<close>

fun is_text :: "jv \<Rightarrow> bool" where
  "is_text (Str s) = True"
| "is_text (Date d) = True"
| "is_text v = False"

fun num_add :: "jv \<Rightarrow> jv \<Rightarrow> jv" where
  "num_add (Num a) (Num b) = Num (a + b)"
| "num_add (Num a) PInf = PInf"
| "num_add PInf (Num b) = PInf"
| "num_add PInf PInf = PInf"
| "num_add a b = NaN"

definition js_add :: "jv \<Rightarrow> jv \<Rightarrow> jv" where
  "js_add a b =
     (let x = to_primitive a; y = to_primitive b in
      if is_text x \<or> is_text y then Str (to_str x @ to_str y)
      else num_add (prim_to_num x) (prim_to_num y))"

subsection \<open>Text helpers\<close>

fun starts_with :: "string \<Rightarrow> string \<Rightarrow> bool" where
  "starts_with s [] = True"
| "starts_with [] (p # ps) = False"
| "starts_with (c # cs) (p # ps) = (c = p \<and> starts_with cs ps)"

fun str_includes :: "string \<Rightarrow> string \<Rightarrow> bool" where
  "str_includes [] t = (t = [])"
| "str_includes (c # cs) t = (starts_with (c # cs) t \<or> str_includes cs t)"

text \<open>\<^verbatim>\<open>path.split('.')\<close>\<close>

fun split_dot :: "string \<Rightarrow> string list" where
  "split_dot [] = [[]]"
| "split_dot (c # cs) =
     (if c = CHR ''.'' then [] # split_dot cs
      else (case split_dot cs of w # ws \<Rightarrow> (c # w) # ws | [] \<Rightarrow> [[c]]))"

subsection \<open>Properties and entries\<close>

text \<open>
  \<^verbatim>\<open>v[key]\<close> on a value that is neither \<^verbatim>\<open>null\<close> nor \<^verbatim>\<open>undefined\<close>.  Only own
  data properties are modelled (and \<^verbatim>\<open>length\<close> of arrays and strings); the methods a
  value inherits from its prototype are not values of the model.
\<close>

fun get_prop :: "jv \<Rightarrow> string \<Rightarrow> jv" where
  "get_prop (Obj kvs) k = (case map_of kvs k of Some v \<Rightarrow> v | None \<Rightarrow> Undefined)"
| "get_prop (Arr xs) k =
     (if k = ''length'' then Num (int (length xs))
      else case array_index k of
          Some i \<Rightarrow> if i < length xs then xs ! i else Undefined
        | None \<Rightarrow> Undefined)"
| "get_prop (Str s) k =
     (if k = ''length'' then Num (int (length s))
      else case array_index k of
          Some i \<Rightarrow> if i < length s then Str [s ! i] else Undefined
        | None \<Rightarrow> Undefined)"
| "get_prop v k = Undefined"

fun indexed :: "nat \<Rightarrow> jv list \<Rightarrow> (string \<times> jv) list" where
  "indexed i [] = []"
| "indexed i (x # xs) = (show_nat i, x) # indexed (Suc i) xs"

text \<open>The own enumerable properties, as a spread \<^verbatim>\<open>{...v}\<close> reads them.\<close>

fun own_entries :: "jv \<Rightarrow> (string \<times> jv) list" where
  "own_entries (Obj kvs) = kvs"
| "own_entries (Arr xs) = indexed 0 xs"
| "own_entries (Str s) = indexed 0 (map (\<lambda>c. Str [c]) s)"
| "own_entries v = []"

text \<open>\<^verbatim>\<open>Object.entries(v)\<close>, which throws on \<^verbatim>\<open>null\<close> and \<^verbatim>\<open>undefined\<close>.\<close>

definition entries :: "jv \<Rightarrow> error + (string \<times> jv) list" where
  "entries v = (if v = Undefined \<or> v = Null then Inl TypeError else Inr (own_entries v))"

text \<open>Assignment \<^verbatim>\<open>o[k] = v\<close> and \<^verbatim>\<open>delete o[k]\<close> on the property list of an object.\<close>

fun obj_set :: "document \<Rightarrow> string \<Rightarrow> jv \<Rightarrow> document" where
  "obj_set [] k v = [(k, v)]"
| "obj_set ((k', v') # kvs) k v =
     (if k' = k then (k, v) # kvs else (k', v') # obj_set kvs k v)"

definition obj_delete :: "document \<Rightarrow> string \<Rightarrow> document" where
  "obj_delete kvs k = filter (\<lambda>(k', v). k' \<noteq> k) kvs"

text \<open>\<^verbatim>\<open>TMUDatabase._getNestedValue\<close>\<close>

definition getNestedValue :: "jv \<Rightarrow> string \<Rightarrow> jv" where
  "getNestedValue obj path =
     foldl (\<lambda>current key.
              if truthy current \<and> get_prop current key \<noteq> Undefined then get_prop current key
              else Undefined)
           obj (split_dot path)"

subsection \<open>What \<^verbatim>\<open>JSON.stringify\<close> keeps of a value\<close>

text \<open>
  \<open>json_norm v\<close> is the value that \<^verbatim>\<open>JSON.parse(JSON.stringify(v))\<close> returns, \<open>None\<close>
  when \<^verbatim>\<open>JSON.stringify\<close> returns \<^verbatim>\<open>undefined\<close>.  A date is written through
  \<^verbatim>\<open>toJSON\<close> as its ISO text, a number that is not finite as \<^verbatim>\<open>null\<close>, an
  \<^verbatim>\<open>undefined\<close> array element as \<^verbatim>\<open>null\<close>, and an \<^verbatim>\<open>undefined\<close> property is
  left out.  Two values have the same JSON text exactly when these are equal.
\<close>

fun json_norm :: "jv \<Rightarrow> jv option"
  and json_elems :: "jv list \<Rightarrow> jv list"
  and json_props :: "(string \<times> jv) list \<Rightarrow> (string \<times> jv) list" where
  "json_norm Undefined = None"
| "json_norm NaN = Some Null"
| "json_norm PInf = Some Null"
| "json_norm (Date d) = Some (Str d)"
| "json_norm (Arr xs) = Some (Arr (json_elems xs))"
| "json_norm (Obj kvs) = Some (Obj (json_props kvs))"
| "json_norm Null = Some Null"
| "json_norm (Bool b) = Some (Bool b)"
| "json_norm (Num n) = Some (Num n)"
| "json_norm (Str s) = Some (Str s)"
| "json_elems [] = []"
| "json_elems (x # xs) = (case json_norm x of None \<Rightarrow> Null | Some y \<Rightarrow> y) # json_elems xs"
| "json_props [] = []"
| "json_props ((k, v) # kvs) =
     (case json_norm v of None \<Rightarrow> json_props kvs | Some y \<Rightarrow> (k, y) # json_props kvs)"

section \<open>The query evaluator\<close>

text \<open>
  \<^verbatim>\<open>new RegExp(pattern, flags).test(value)\<close> belongs to the platform: the evaluator
  takes it as a parameter, with \<open>SyntaxError\<close> for a pattern the platform rejects.
\<close>

type_synonym regexp = "jv \<Rightarrow> jv \<Rightarrow> jv \<Rightarrow> error + bool"

text \<open>\<^verbatim>\<open>xs.some(p)\<close> and \<^verbatim>\<open>xs.every(p)\<close> with a callback that may throw.\<close>

fun some_m :: "('a \<Rightarrow> error + bool) \<Rightarrow> 'a list \<Rightarrow> error + bool" where
  "some_m p [] = Inr False"
| "some_m p (x # xs) =
     (case p x of Inl e \<Rightarrow> Inl e | Inr b \<Rightarrow> if b then Inr True else some_m p xs)"

fun every_m :: "('a \<Rightarrow> error + bool) \<Rightarrow> 'a list \<Rightarrow> error + bool" where
  "every_m p [] = Inr True"
| "every_m p (x # xs) =
     (case p x of Inl e \<Rightarrow> Inl e | Inr b \<Rightarrow> if b then every_m p xs else Inr False)"

text \<open>\<^verbatim>\<open>xs.filter(p)\<close> with a callback that may throw.\<close>

fun filter_m :: "('a \<Rightarrow> error + bool) \<Rightarrow> 'a list \<Rightarrow> error + 'a list" where
  "filter_m p [] = Inr []"
| "filter_m p (x # xs) =
     (case p x of
        Inl e \<Rightarrow> Inl e
      | Inr b \<Rightarrow>
          (case filter_m p xs of
             Inl e \<Rightarrow> Inl e
           | Inr ys \<Rightarrow> Inr (if b then x # ys else ys)))"

lemma some_m_cong [fundef_cong]:
  "xs = ys \<Longrightarrow> (\<And>x. x \<in> set ys \<Longrightarrow> p x = q x) \<Longrightarrow> some_m p xs = some_m q ys"
  by (induction ys arbitrary: xs) (auto split: sum.splits)

lemma every_m_cong [fundef_cong]:
  "xs = ys \<Longrightarrow> (\<And>x. x \<in> set ys \<Longrightarrow> p x = q x) \<Longrightarrow> every_m p xs = every_m q ys"
  by (induction ys arbitrary: xs) (auto split: sum.splits)

text \<open>\<^verbatim>\<open>opValue.includes(value)\<close>: arrays and strings have the method.\<close>

fun js_includes :: "jv \<Rightarrow> jv \<Rightarrow> error + bool" where
  "js_includes (Arr xs) v = Inr (list_ex (\<lambda>x. same_value_zero x v) xs)"
| "js_includes (Str s) v = Inr (str_includes s (to_str v))"
| "js_includes c v = Inl TypeError"

text \<open>
  The condition of a field is an operator map when
  \<^verbatim>\<open>typeof condition === 'object' && condition !== null && !Array.isArray(condition)\<close>.
\<close>

fun is_operator_map :: "jv \<Rightarrow> bool" where
  "is_operator_map (Obj kvs) = True"
| "is_operator_map (Date d) = True"
| "is_operator_map v = False"

text \<open>The \<^verbatim>\<open>else\<close> branch of \<^verbatim>\<open>_matchDocument\<close>: equality with a literal.\<close>

fun match_literal :: "jv \<Rightarrow> jv \<Rightarrow> bool" where
  "match_literal value (Arr cs) =
     (case value of Arr vs \<Rightarrow> json_norm (Arr vs) = json_norm (Arr cs) | _ \<Rightarrow> False)"
| "match_literal value condition = strict_eq value condition"

text \<open>
  One case of the \<^verbatim>\<open>switch (op)\<close>, all but \<^verbatim>\<open>$elemMatch\<close>: \<open>Inr False\<close> is
  \<^verbatim>\<open>return false\<close>, \<open>Inr True\<close> is \<^verbatim>\<open>break\<close>.  An operator the switch does not know
  is skipped.
\<close>

definition match_op :: "regexp \<Rightarrow> jv \<Rightarrow> jv \<Rightarrow> string \<Rightarrow> jv \<Rightarrow> error + bool" where
  "match_op rx condition value op opValue =
     (if op = ''$eq'' then Inr (strict_eq value opValue)
      else if op = ''$ne'' then Inr (\<not> strict_eq value opValue)
      else if op = ''$gt'' then Inr (gt value opValue)
      else if op = ''$gte'' then Inr (gte value opValue)
      else if op = ''$lt'' then Inr (lt value opValue)
      else if op = ''$lte'' then Inr (lte value opValue)
      else if op = ''$in'' then js_includes opValue value
      else if op = ''$nin'' then
        (case js_includes opValue value of Inl e \<Rightarrow> Inl e | Inr b \<Rightarrow> Inr (\<not> b))
      else if op = ''$exists'' then Inr (strict_eq (Bool (value \<noteq> Undefined)) opValue)
      else if op = ''$regex'' then rx opValue (js_or (get_prop condition ''$options'') (Str [])) value
      else Inr True)"

lemma size_indexed: "(k, c) \<in> set (indexed i xs) \<Longrightarrow> c \<in> set xs"
  by (induction xs arbitrary: i) auto

lemma size_member: "c \<in> set xs \<Longrightarrow> size c < Suc (size_list size xs)"
  by (induction xs) auto

lemma size_member_prod:
  "(k, c) \<in> set kvs \<Longrightarrow> size c < Suc (size_list (size_prod (\<lambda>x. 0) size) kvs)"
  by (induction kvs) auto

lemma size_own_entries: "(k, c) \<in> set (own_entries q) \<Longrightarrow> size c \<le> size q"
proof (cases q)
  case (Arr xs)
  assume "(k, c) \<in> set (own_entries q)"
  with Arr have "c \<in> set xs" by (auto dest: size_indexed)
  then show ?thesis using Arr size_member [of c xs] by simp
next
  case (Obj kvs)
  assume "(k, c) \<in> set (own_entries q)"
  with Obj show ?thesis using size_member_prod [of k c kvs] by simp
next
  case (Str s)
  assume "(k, c) \<in> set (own_entries q)"
  with Str have "c \<in> set (map (\<lambda>c. Str [c]) s)" by (auto dest: size_indexed)
  then show ?thesis by auto
qed auto

lemma size_own_entries_map:
  "is_operator_map q \<Longrightarrow> (k, c) \<in> set (own_entries q) \<Longrightarrow> size c < size q"
  by (cases q) (auto dest: size_member_prod)

text \<open>\<^verbatim>\<open>Collection._matchDocument\<close>\<close>

function matchDocument :: "regexp \<Rightarrow> jv \<Rightarrow> jv \<Rightarrow> error + bool" where
  "matchDocument rx doc query =
     (case entries query of
        Inl e \<Rightarrow> Inl e
      | Inr kvs \<Rightarrow>
          every_m (\<lambda>(field, condition).
            if field = ''$or'' then
              (case condition of
                 Arr subs \<Rightarrow> some_m (\<lambda>sub. matchDocument rx doc sub) subs
               | _ \<Rightarrow> Inl TypeError)
            else if field = ''$and'' then
              (case condition of
                 Arr subs \<Rightarrow> every_m (\<lambda>sub. matchDocument rx doc sub) subs
               | _ \<Rightarrow> Inl TypeError)
            else
              (let value = getNestedValue doc field in
               if is_operator_map condition then
                 every_m (\<lambda>(op, opValue).
                     if op = ''$elemMatch'' then
                       (case value of
                          Arr els \<Rightarrow> some_m (\<lambda>el. matchDocument rx el opValue) els
                        | _ \<Rightarrow> Inr False)
                     else match_op rx condition value op opValue)
                   (own_entries condition)
               else Inr (match_literal value condition)))
            kvs)"
  by pat_completeness auto
termination
proof (relation "measure (\<lambda>(rx, doc, query). size query)", goal_cases)
  case 1
  show ?case by simp
next
  case (2 rx doc query kvs x field condition subs sub)
  then have "size condition \<le> size query"
    by (auto simp: entries_def split: if_splits dest: size_own_entries)
  moreover have "size sub < size condition" using 2 size_member [of sub subs] by simp
  ultimately show ?case by simp
next
  case (3 rx doc query kvs x field condition subs sub)
  then have "size condition \<le> size query"
    by (auto simp: entries_def split: if_splits dest: size_own_entries)
  moreover have "size sub < size condition" using 3 size_member [of sub subs] by simp
  ultimately show ?case by simp
next
  case (4 rx doc query kvs x field condition v y op opValue els el)
  then have "size condition \<le> size query"
    by (auto simp: entries_def split: if_splits dest: size_own_entries)
  moreover have "size opValue < size condition"
    using 4 size_own_entries_map [of condition op opValue] by simp
  ultimately show ?case by simp
qed

declare matchDocument.simps [simp del]

section \<open>Collections and their indexes\<close>

text \<open>
  An index is \<^verbatim>\<open>{ unique, data: Map }\<close>; the \<^verbatim>\<open>Map\<close> sends a field value to the list of
  the \<^verbatim>\<open>_id\<close>s of the documents that hold it, its keys compared by \<^verbatim>\<open>SameValueZero\<close>.
\<close>

type_synonym jmap = "(jv \<times> jv list) list"

definition map_has :: "jmap \<Rightarrow> jv \<Rightarrow> bool" where
  "map_has m k = list_ex (\<lambda>(k', ids). same_value_zero k' k) m"

fun map_get :: "jmap \<Rightarrow> jv \<Rightarrow> jv list option" where
  "map_get [] k = None"
| "map_get ((k', ids) # m) k = (if same_value_zero k' k then Some ids else map_get m k)"

text \<open>
  \<^verbatim>\<open>if (!data.has(value)) data.set(value, []); data.get(value).push(id)\<close>.  A key that
  is an object is found by no other key, so it opens an entry of its own.
\<close>

fun map_push :: "jmap \<Rightarrow> jv \<Rightarrow> jv \<Rightarrow> jmap" where
  "map_push [] k i = [(k, [i])]"
| "map_push ((k', ids) # m) k i =
     (if same_value_zero k' k then (k', ids @ [i]) # m else (k', ids) # map_push m k i)"

record index =
  unique :: bool
  data :: jmap

text \<open>
  One collection of the store: \<^verbatim>\<open>db.collections[name]\<close>, \<^verbatim>\<open>db.indexes[name]\<close> and
  the entry \<^verbatim>\<open>db.writeBuffer[name]\<close> that \<^verbatim>\<open>_saveCollection\<close> sets.
\<close>

record collection =
  c_data :: "document list"
  c_indexes :: "(string \<times> index) list"
  c_dirty :: bool

definition empty_collection :: collection where
  "empty_collection = \<lparr>c_data = [], c_indexes = [], c_dirty = False\<rparr>"

definition doc_id :: "document \<Rightarrow> jv" where
  "doc_id d = get_prop (Obj d) ''_id''"

text \<open>\<^verbatim>\<open>TMUDatabase._rebuildIndexes\<close>, for one field and for all fields.\<close>

definition build_index :: "string \<Rightarrow> document list \<Rightarrow> jmap" where
  "build_index field ds =
     foldl (\<lambda>m d. let value = getNestedValue (Obj d) field in
                   if value \<noteq> Undefined then map_push m value (doc_id d) else m) [] ds"

definition rebuildIndexes :: "collection \<Rightarrow> collection" where
  "rebuildIndexes c =
     c\<lparr>c_indexes :=
         map (\<lambda>(field, ix). (field, ix\<lparr>data := build_index field (c_data c)\<rparr>)) (c_indexes c)\<rparr>"

fun index_set :: "(string \<times> index) list \<Rightarrow> string \<Rightarrow> index \<Rightarrow> (string \<times> index) list" where
  "index_set [] k v = [(k, v)]"
| "index_set ((k', v') # kvs) k v =
     (if k' = k then (k, v) # kvs else (k', v') # index_set kvs k v)"

text \<open>\<^verbatim>\<open>TMUDatabase.createIndex\<close>: \<open>uniq\<close> is \<^verbatim>\<open>options.unique || false\<close>.\<close>

definition createIndex :: "string \<Rightarrow> bool \<Rightarrow> collection \<Rightarrow> collection" where
  "createIndex field uniq c =
     c\<lparr>c_indexes :=
         index_set (c_indexes c) field \<lparr>unique = uniq, data = build_index field (c_data c)\<rparr>\<rparr>"

text \<open>\<^verbatim>\<open>TMUDatabase._saveCollection\<close>: the write itself is deferred.\<close>

definition saveCollection :: "collection \<Rightarrow> collection" where
  "saveCollection c = c\<lparr>c_dirty := True\<rparr>"

subsection \<open>Insert\<close>

text \<open>\<^verbatim>\<open>{ ...base, ...v }\<close>\<close>

definition spread :: "document \<Rightarrow> jv \<Rightarrow> document" where
  "spread base v = foldl (\<lambda>acc (k, x). obj_set acc k x) base (own_entries v)"

text \<open>The first unique index that already holds the value of the new document.\<close>

fun unique_violation :: "(string \<times> index) list \<Rightarrow> document \<Rightarrow> string option" where
  "unique_violation [] newDoc = None"
| "unique_violation ((field, ix) # rest) newDoc =
     (if unique ix \<and> getNestedValue (Obj newDoc) field \<noteq> Undefined
         \<and> map_has (data ix) (getNestedValue (Obj newDoc) field)
      then Some field else unique_violation rest newDoc)"

definition index_add :: "document \<Rightarrow> string \<times> index \<Rightarrow> string \<times> index" where
  "index_add newDoc = (\<lambda>(field, ix).
     let value = getNestedValue (Obj newDoc) field in
     if value \<noteq> Undefined then (field, ix\<lparr>data := map_push (data ix) value (doc_id newDoc)\<rparr>)
     else (field, ix))"

text \<open>
  \<^verbatim>\<open>Collection.insertOne\<close>.  \<open>gid\<close> is what \<^verbatim>\<open>_generateId()\<close> returned and \<open>now\<close>
  what \<^verbatim>\<open>new Date()\<close> returned.  The result carries the collection after the call also
  when the call throws.
\<close>

definition new_document :: "jv \<Rightarrow> jv \<Rightarrow> jv \<Rightarrow> document" where
  "new_document gid now doc =
     obj_set
       (obj_set (spread [(''_id'', gid)] doc) ''createdAt'' (js_or (get_prop doc ''createdAt'') now))
       ''updatedAt'' (js_or (get_prop doc ''updatedAt'') now)"

definition insertOne ::
  "jv \<Rightarrow> jv \<Rightarrow> jv \<Rightarrow> collection \<Rightarrow> (error + jv \<times> document) \<times> collection" where
  "insertOne gid now doc c =
     (if doc = Undefined \<or> doc = Null then (Inl TypeError, c)
      else
        let newDoc = new_document gid now doc in
        case unique_violation (c_indexes c) newDoc of
          Some field \<Rightarrow> (Inl (DuplicateKey field), c)
        | None \<Rightarrow>
            (Inr (doc_id newDoc, newDoc),
             saveCollection
               (c\<lparr>c_data := c_data c @ [newDoc],
                  c_indexes := map (index_add newDoc) (c_indexes c)\<rparr>)))"


subsection \<open>Find\<close>

text \<open>The first entry of the query that \<^verbatim>\<open>_matchQuery\<close> answers from an index.\<close>

fun index_clause :: "(string \<times> index) list \<Rightarrow> (string \<times> jv) list \<Rightarrow> (jv \<times> index) option" where
  "index_clause ixs [] = None"
| "index_clause ixs ((field, v) # rest) =
     (if \<not> typeof_object v then
        (case map_of ixs field of Some ix \<Rightarrow> Some (v, ix) | None \<Rightarrow> index_clause ixs rest)
      else index_clause ixs rest)"

text \<open>\<^verbatim>\<open>Collection._matchQuery\<close>\<close>

definition matchQuery :: "regexp \<Rightarrow> jv \<Rightarrow> collection \<Rightarrow> error + document list" where
  "matchQuery rx query c =
     (case entries query of
        Inl e \<Rightarrow> Inl e
      | Inr kvs \<Rightarrow>
          if kvs = [] then Inr (c_data c)
          else
            (case index_clause (c_indexes c) kvs of
               Some (v, ix) \<Rightarrow>
                 (let ids = (case map_get (data ix) v of Some l \<Rightarrow> l | None \<Rightarrow> []);
                      indexed = filter (\<lambda>d. list_ex (\<lambda>i. same_value_zero i (doc_id d)) ids) (c_data c)
                  in filter_m (\<lambda>d. matchDocument rx (Obj d) query) indexed)
             | None \<Rightarrow> filter_m (\<lambda>d. matchDocument rx (Obj d) query) (c_data c)))"

text \<open>
  The comparator of \<^verbatim>\<open>_applySort\<close>.  \<^verbatim>\<open>Array.prototype.sort\<close> reads only the sign of
  what the comparator returns (\<^verbatim>\<open>NaN\<close> counting as 0), so the model returns the sign
  of \<^verbatim>\<open>-1 * order\<close> and of \<^verbatim>\<open>1 * order\<close>.
\<close>

definition order_sign :: "jv \<Rightarrow> int" where
  "order_sign order = (case to_num order of Num n \<Rightarrow> sgn n | PInf \<Rightarrow> 1 | _ \<Rightarrow> 0)"

fun compare_docs :: "(string \<times> jv) list \<Rightarrow> document \<Rightarrow> document \<Rightarrow> int" where
  "compare_docs [] a b = 0"
| "compare_docs ((field, order) # rest) a b =
     (let aVal = getNestedValue (Obj a) field; bVal = getNestedValue (Obj b) field in
      if lt aVal bVal then - order_sign order
      else if gt aVal bVal then order_sign order
      else compare_docs rest a b)"

text \<open>
  \<^verbatim>\<open>Array.prototype.sort\<close> is stable (ECMAScript 2019); the model is the stable
  insertion sort: an element moves behind a later one only when the comparator puts it
  strictly after.
\<close>

fun insort_cmp :: "('a \<Rightarrow> 'a \<Rightarrow> int) \<Rightarrow> 'a \<Rightarrow> 'a list \<Rightarrow> 'a list" where
  "insort_cmp cmp x [] = [x]"
| "insort_cmp cmp x (y # ys) = (if cmp x y > 0 then y # insort_cmp cmp x ys else x # y # ys)"

definition sort_cmp :: "('a \<Rightarrow> 'a \<Rightarrow> int) \<Rightarrow> 'a list \<Rightarrow> 'a list" where
  "sort_cmp cmp xs = foldr (insort_cmp cmp) xs []"

text \<open>
  \<^verbatim>\<open>Collection._applySort\<close>.  The comparator, and with it \<^verbatim>\<open>Object.entries(sort)\<close>,
  runs only when there are two documents to compare.
\<close>

definition applySort :: "document list \<Rightarrow> jv \<Rightarrow> error + document list" where
  "applySort ds sort_spec =
     (if length ds < 2 then Inr ds
      else case entries sort_spec of
          Inl e \<Rightarrow> Inl e
        | Inr ks \<Rightarrow> Inr (sort_cmp (compare_docs ks) ds))"

text \<open>\<^verbatim>\<open>xs.slice(start)\<close> and \<^verbatim>\<open>xs.slice(0, end)\<close>; \<open>None\<close> is \<^verbatim>\<open>+Infinity\<close>.\<close>

definition to_integer :: "jv \<Rightarrow> int option" where
  "to_integer v = (case to_num v of Num n \<Rightarrow> Some n | PInf \<Rightarrow> None | _ \<Rightarrow> Some 0)"

definition slice_bound :: "nat \<Rightarrow> jv \<Rightarrow> nat" where
  "slice_bound len v =
     (case to_integer v of
        None \<Rightarrow> len
      | Some n \<Rightarrow> if n < 0 then nat (int len + n) else min (nat n) len)"

definition slice_from :: "'a list \<Rightarrow> jv \<Rightarrow> 'a list" where
  "slice_from xs start = drop (slice_bound (length xs) start) xs"

definition slice_to :: "'a list \<Rightarrow> jv \<Rightarrow> 'a list" where
  "slice_to xs e = (if e = Undefined then xs else take (slice_bound (length xs) e) xs)"

text \<open>\<^verbatim>\<open>Collection._applyProjection\<close>\<close>

definition applyProjection :: "document \<Rightarrow> jv \<Rightarrow> error + document" where
  "applyProjection doc projection =
     (case entries projection of
        Inl e \<Rightarrow> Inl e
      | Inr ps \<Rightarrow>
          if list_ex (\<lambda>(field, v). strict_eq v (Num 1)) ps then
            Inr (foldl (\<lambda>result (field, v).
                          if strict_eq v (Num 1) then obj_set result field (getNestedValue (Obj doc) field)
                          else if field = ''_id'' \<and> strict_eq v (Num 0) then obj_delete result ''_id''
                          else result)
                   [(''_id'', doc_id doc)] ps)
          else
            Inr (foldl (\<lambda>result (field, v).
                          if strict_eq v (Num 0) then obj_delete result field else result)
                   doc ps))"

fun map_m :: "('a \<Rightarrow> error + 'b) \<Rightarrow> 'a list \<Rightarrow> error + 'b list" where
  "map_m f [] = Inr []"
| "map_m f (x # xs) =
     (case f x of
        Inl e \<Rightarrow> Inl e
      | Inr y \<Rightarrow> (case map_m f xs of Inl e \<Rightarrow> Inl e | Inr ys \<Rightarrow> Inr (y # ys)))"

text \<open>The \<^verbatim>\<open>options\<close> of \<^verbatim>\<open>find\<close>; an option that is not given is \<^verbatim>\<open>undefined\<close>.\<close>

record find_options =
  o_sort :: jv
  o_skip :: jv
  o_limit :: jv
  o_projection :: jv

definition no_options :: find_options where
  "no_options = \<lparr>o_sort = Undefined, o_skip = Undefined, o_limit = Undefined, o_projection = Undefined\<rparr>"

text \<open>\<^verbatim>\<open>Collection.find\<close>; a query that is \<^verbatim>\<open>undefined\<close> takes the default \<^verbatim>\<open>{}\<close>.\<close>

definition default_query :: "jv \<Rightarrow> jv" where
  "default_query query = (if query = Undefined then Obj [] else query)"

definition find :: "regexp \<Rightarrow> jv \<Rightarrow> find_options \<Rightarrow> collection \<Rightarrow> error + document list" where
  "find rx query options c =
     (case matchQuery rx (default_query query) c of
        Inl e \<Rightarrow> Inl e
      | Inr matched \<Rightarrow>
          (case (if truthy (o_sort options) then applySort matched (o_sort options) else Inr matched) of
             Inl e \<Rightarrow> Inl e
           | Inr ordered \<Rightarrow>
               (let skipped = (if truthy (o_skip options) then slice_from ordered (o_skip options) else ordered);
                    limited = (if truthy (o_limit options) then slice_to skipped (o_limit options) else skipped)
                in if truthy (o_projection options)
                   then map_m (\<lambda>d. applyProjection d (o_projection options)) limited
                   else Inr limited)))"

text \<open>\<^verbatim>\<open>Collection.findOne\<close>: \<open>None\<close> is \<^verbatim>\<open>null\<close>.\<close>

definition findOne :: "regexp \<Rightarrow> jv \<Rightarrow> collection \<Rightarrow> error + document option" where
  "findOne rx query c =
     (case find rx query (no_options\<lparr>o_limit := Num 1\<rparr>) c of
        Inl e \<Rightarrow> Inl e
      | Inr results \<Rightarrow> Inr (case results of [] \<Rightarrow> None | d # ds \<Rightarrow> Some d))"

text \<open>\<^verbatim>\<open>this._data.findIndex(d => d._id === id)\<close>\<close>

fun findIndex :: "jv \<Rightarrow> document list \<Rightarrow> nat option" where
  "findIndex i [] = None"
| "findIndex i (d # ds) =
     (if strict_eq (doc_id d) i then Some 0 else map_option Suc (findIndex i ds))"

text \<open>\<^verbatim>\<open>Collection.countDocuments\<close>\<close>

definition countDocuments :: "regexp \<Rightarrow> jv \<Rightarrow> collection \<Rightarrow> error + nat" where
  "countDocuments rx query c =
     (case matchQuery rx (default_query query) c of Inl e \<Rightarrow> Inl e | Inr r \<Rightarrow> Inr (length r))"

subsection \<open>Update operators\<close>

text \<open>
  The assignment \<^verbatim>\<open>current[k] = v\<close>.  The engine's classes run in strict mode, where
  creating a property on a primitive throws.  The values of the model are JSON-like
  trees: an assignment that would leave them (a hole or a named property on an array, a
  property on a \<^verbatim>\<open>Date\<close>) returns \<open>Unsupported\<close>.
\<close>

fun set_prop :: "jv \<Rightarrow> string \<Rightarrow> jv \<Rightarrow> error + jv" where
  "set_prop (Obj kvs) k v = Inr (Obj (obj_set kvs k v))"
| "set_prop (Arr xs) k v =
     (case array_index k of
        Some i \<Rightarrow>
          if i < length xs then Inr (Arr (xs[i := v]))
          else if i = length xs then Inr (Arr (xs @ [v]))
          else Inl Unsupported
      | None \<Rightarrow> Inl Unsupported)"
| "set_prop (Date d) k v = Inl Unsupported"
| "set_prop cur k v = Inl TypeError"

text \<open>
  The tree after the object held under \<open>k\<close> has been changed in place to \<open>child\<close>.
\<close>

fun put_child :: "jv \<Rightarrow> string \<Rightarrow> jv \<Rightarrow> jv" where
  "put_child (Obj kvs) k child = Obj (obj_set kvs k child)"
| "put_child (Arr xs) k child =
     (case array_index k of
        Some i \<Rightarrow> if i < length xs then Arr (xs[i := child]) else Arr xs
      | None \<Rightarrow> Arr xs)"
| "put_child cur k child = cur"

text \<open>\<^verbatim>\<open>Collection._setNestedValue\<close>, on the keys of the path.\<close>

fun set_path :: "jv \<Rightarrow> string list \<Rightarrow> jv \<Rightarrow> error + jv" where
  "set_path cur [] v = Inr cur"
| "set_path cur [k] v = set_prop cur k v"
| "set_path cur (k # k' # ks) v =
     (if truthy (get_prop cur k) then
        (case set_path (get_prop cur k) (k' # ks) v of
           Inl e \<Rightarrow> Inl e
         | Inr child \<Rightarrow> Inr (put_child cur k child))
      else
        (case set_prop cur k (Obj []) of
           Inl e \<Rightarrow> Inl e
         | Inr cur' \<Rightarrow>
             (case set_path (Obj []) (k' # ks) v of
                Inl e \<Rightarrow> Inl e
              | Inr child \<Rightarrow> Inr (put_child cur' k child))))"

definition setNestedValue :: "document \<Rightarrow> string \<Rightarrow> jv \<Rightarrow> error + document" where
  "setNestedValue obj path v =
     (case set_path (Obj obj) (split_dot path) v of
        Inl e \<Rightarrow> Inl e
      | Inr r \<Rightarrow> Inr (own_entries r))"

text \<open>
  \<^verbatim>\<open>delete current[k]\<close>: in strict mode deleting an index or the length of a string, or
  the length of an array, throws; deleting an element of an array leaves a hole.
\<close>

fun delete_prop :: "jv \<Rightarrow> string \<Rightarrow> error + jv" where
  "delete_prop (Obj kvs) k = Inr (Obj (obj_delete kvs k))"
| "delete_prop (Arr xs) k =
     (if k = ''length'' then Inl TypeError
      else case array_index k of
          Some i \<Rightarrow> if i < length xs then Inl Unsupported else Inr (Arr xs)
        | None \<Rightarrow> Inr (Arr xs))"
| "delete_prop (Str s) k =
     (if k = ''length'' then Inl TypeError
      else case array_index k of
          Some i \<Rightarrow> if i < length s then Inl TypeError else Inr (Str s)
        | None \<Rightarrow> Inr (Str s))"
| "delete_prop cur k = Inr cur"

text \<open>\<^verbatim>\<open>Collection._deleteNestedValue\<close>, on the keys of the path.\<close>

fun delete_path :: "jv \<Rightarrow> string list \<Rightarrow> error + jv" where
  "delete_path cur [] = Inr cur"
| "delete_path cur [k] = delete_prop cur k"
| "delete_path cur (k # k' # ks) =
     (if truthy (get_prop cur k) then
        (case delete_path (get_prop cur k) (k' # ks) of
           Inl e \<Rightarrow> Inl e
         | Inr child \<Rightarrow> Inr (put_child cur k child))
      else Inr cur)"

definition deleteNestedValue :: "document \<Rightarrow> string \<Rightarrow> error + document" where
  "deleteNestedValue obj path =
     (case delete_path (Obj obj) (split_dot path) of
        Inl e \<Rightarrow> Inl e
      | Inr r \<Rightarrow> Inr (own_entries r))"

text \<open>A loop whose body may throw.\<close>

fun fold_m :: "('s \<Rightarrow> 'a \<Rightarrow> error + 's) \<Rightarrow> 's \<Rightarrow> 'a list \<Rightarrow> error + 's" where
  "fold_m f s [] = Inr s"
| "fold_m f s (x # xs) = (case f s x of Inl e \<Rightarrow> Inl e | Inr s' \<Rightarrow> fold_m f s' xs)"

text \<open>What \<^verbatim>\<open>...v\<close> spreads into the arguments of a call: the elements of an iterable.\<close>

fun iterate :: "jv \<Rightarrow> error + jv list" where
  "iterate (Arr xs) = Inr xs"
| "iterate (Str s) = Inr (map (\<lambda>c. Str [c]) s)"
| "iterate v = Inl TypeError"

text \<open>\<^verbatim>\<open>current.push(...)\<close>: only an array has the method.\<close>

fun push :: "jv \<Rightarrow> jv list \<Rightarrow> error + jv" where
  "push (Arr xs) ys = Inr (Arr (xs @ ys))"
| "push cur ys = Inl TypeError"

text \<open>One field of \<^verbatim>\<open>$push\<close>, \<^verbatim>\<open>$pull\<close>, \<^verbatim>\<open>$addToSet\<close> and \<^verbatim>\<open>$inc\<close>.\<close>

definition push_field :: "document \<Rightarrow> string \<times> jv \<Rightarrow> error + document" where
  "push_field result = (\<lambda>(field, v).
     let current = js_or (getNestedValue (Obj result) field) (Arr []) in
     if v = Undefined \<or> v = Null then Inl TypeError
     else
       (case (if truthy (get_prop v ''$each'')
              then (case iterate (get_prop v ''$each'') of
                      Inl e \<Rightarrow> Inl e
                    | Inr ys \<Rightarrow> push current ys)
              else push current [v]) of
          Inl e \<Rightarrow> Inl e
        | Inr current' \<Rightarrow> setNestedValue result field current'))"

definition pull_field :: "regexp \<Rightarrow> document \<Rightarrow> string \<times> jv \<Rightarrow> error + document" where
  "pull_field rx result = (\<lambda>(field, v).
     case js_or (getNestedValue (Obj result) field) (Arr []) of
       Arr xs \<Rightarrow>
         (case filter_m (\<lambda>item.
                  if typeof_object v then
                    (case matchDocument rx item v of Inl e \<Rightarrow> Inl e | Inr b \<Rightarrow> Inr (\<not> b))
                  else Inr (\<not> strict_eq item v)) xs of
            Inl e \<Rightarrow> Inl e
          | Inr filtered \<Rightarrow> setNestedValue result field (Arr filtered))
     | _ \<Rightarrow> Inl TypeError)"

definition addToSet_field :: "document \<Rightarrow> string \<times> jv \<Rightarrow> error + document" where
  "addToSet_field result = (\<lambda>(field, v).
     let current = js_or (getNestedValue (Obj result) field) (Arr []) in
     case js_includes current v of
       Inl e \<Rightarrow> Inl e
     | Inr present \<Rightarrow>
         (case (if present then Inr current else push current [v]) of
            Inl e \<Rightarrow> Inl e
          | Inr current' \<Rightarrow> setNestedValue result field current'))"

definition inc_field :: "document \<Rightarrow> string \<times> jv \<Rightarrow> error + document" where
  "inc_field result = (\<lambda>(field, v).
     let current = js_or (getNestedValue (Obj result) field) (Num 0) in
     setNestedValue result field (js_add current v))"

text \<open>One case of the \<^verbatim>\<open>switch (op)\<close> of \<^verbatim>\<open>_applyUpdate\<close>.\<close>

definition apply_operator :: "regexp \<Rightarrow> document \<Rightarrow> string \<times> jv \<Rightarrow> error + document" where
  "apply_operator rx result = (\<lambda>(op, fields).
     if op = ''$set'' then
       (case entries fields of
          Inl e \<Rightarrow> Inl e
        | Inr fs \<Rightarrow> fold_m (\<lambda>r (field, v). setNestedValue r field v) result fs)
     else if op = ''$unset'' then
       (case entries fields of
          Inl e \<Rightarrow> Inl e
        | Inr fs \<Rightarrow> fold_m (\<lambda>r (field, v). deleteNestedValue r field) result fs)
     else if op = ''$inc'' then
       (case entries fields of Inl e \<Rightarrow> Inl e | Inr fs \<Rightarrow> fold_m inc_field result fs)
     else if op = ''$push'' then
       (case entries fields of Inl e \<Rightarrow> Inl e | Inr fs \<Rightarrow> fold_m push_field result fs)
     else if op = ''$pull'' then
       (case entries fields of Inl e \<Rightarrow> Inl e | Inr fs \<Rightarrow> fold_m (pull_field rx) result fs)
     else if op = ''$addToSet'' then
       (case entries fields of Inl e \<Rightarrow> Inl e | Inr fs \<Rightarrow> fold_m addToSet_field result fs)
     else if \<not> starts_with op ''$'' then Inr (obj_set result op fields)
     else Inr result)"

text \<open>
  \<^verbatim>\<open>Collection._applyUpdate\<close>: the operators run on a copy of the document, in the
  order of the update description.
\<close>

definition applyUpdate :: "regexp \<Rightarrow> document \<Rightarrow> jv \<Rightarrow> error + document" where
  "applyUpdate rx doc update =
     (case entries update of
        Inl e \<Rightarrow> Inl e
      | Inr ops \<Rightarrow> fold_m (apply_operator rx) doc ops)"

subsection \<open>Update and delete\<close>

text \<open>
  The update operations return \<open>Inl\<close> when the call throws.  What the collection holds
  after an update that threw depends on the objects the old and the new document share
  and is the subject of the heap model of a later section.
\<close>

record update_result =
  matchedCount :: nat
  modifiedCount :: nat
  document :: "document option"

text \<open>\<^verbatim>\<open>updatedDoc.updatedAt = new Date(); this._data[index] = updatedDoc\<close>\<close>

definition replace_at :: "regexp \<Rightarrow> jv \<Rightarrow> jv \<Rightarrow> nat \<Rightarrow> document list \<Rightarrow> error + document \<times> document list" where
  "replace_at rx now update i ds =
     (case applyUpdate rx (ds ! i) update of
        Inl e \<Rightarrow> Inl e
      | Inr updatedDoc \<Rightarrow>
          (let stamped = obj_set updatedDoc ''updatedAt'' now
           in Inr (stamped, ds[i := stamped])))"

text \<open>\<^verbatim>\<open>Collection.updateOne\<close>\<close>

definition updateOne ::
  "regexp \<Rightarrow> jv \<Rightarrow> jv \<Rightarrow> jv \<Rightarrow> collection \<Rightarrow> error + update_result \<times> collection" where
  "updateOne rx now query update c =
     (case findOne rx query c of
        Inl e \<Rightarrow> Inl e
      | Inr None \<Rightarrow> Inr (\<lparr>matchedCount = 0, modifiedCount = 0, document = None\<rparr>, c)
      | Inr (Some doc) \<Rightarrow>
          (case findIndex (doc_id doc) (c_data c) of
             None \<Rightarrow> Inr (\<lparr>matchedCount = 0, modifiedCount = 0, document = None\<rparr>, c)
           | Some i \<Rightarrow>
               (case replace_at rx now update i (c_data c) of
                  Inl e \<Rightarrow> Inl e
                | Inr (updatedDoc, ds) \<Rightarrow>
                    Inr (\<lparr>matchedCount = 1, modifiedCount = 1, document = Some updatedDoc\<rparr>,
                         saveCollection (rebuildIndexes (c\<lparr>c_data := ds\<rparr>))))))"



text \<open>\<^verbatim>\<open>Collection.findByIdAndUpdate\<close>: \<open>None\<close> is \<^verbatim>\<open>null\<close>.\<close>

definition findByIdAndUpdate ::
  "regexp \<Rightarrow> jv \<Rightarrow> jv \<Rightarrow> jv \<Rightarrow> collection \<Rightarrow> error + document option \<times> collection" where
  "findByIdAndUpdate rx now i update c =
     (case findIndex i (c_data c) of
        None \<Rightarrow> Inr (None, c)
      | Some n \<Rightarrow>
          (case replace_at rx now update n (c_data c) of
             Inl e \<Rightarrow> Inl e
           | Inr (updatedDoc, ds) \<Rightarrow>
               Inr (Some updatedDoc, saveCollection (rebuildIndexes (c\<lparr>c_data := ds\<rparr>)))))"

text \<open>\<^verbatim>\<open>this._data.splice(index, 1)\<close>\<close>

definition splice1 :: "nat \<Rightarrow> 'a list \<Rightarrow> 'a list" where
  "splice1 i xs = take i xs @ drop (Suc i) xs"

text \<open>\<^verbatim>\<open>Collection.deleteOne\<close> and \<^verbatim>\<open>Collection.deleteMany\<close>, with \<^verbatim>\<open>deletedCount\<close>.\<close>

definition deleteOne :: "regexp \<Rightarrow> jv \<Rightarrow> collection \<Rightarrow> error + nat \<times> collection" where
  "deleteOne rx query c =
     (case findOne rx query c of
        Inl e \<Rightarrow> Inl e
      | Inr None \<Rightarrow> Inr (0, c)
      | Inr (Some doc) \<Rightarrow>
          (case findIndex (doc_id doc) (c_data c) of
             None \<Rightarrow> Inr (0, c)
           | Some i \<Rightarrow>
               Inr (1, saveCollection (rebuildIndexes (c\<lparr>c_data := splice1 i (c_data c)\<rparr>)))))"

definition deleteMany :: "regexp \<Rightarrow> jv \<Rightarrow> collection \<Rightarrow> error + nat \<times> collection" where
  "deleteMany rx query c =
     (case find rx query no_options c of
        Inl e \<Rightarrow> Inl e
      | Inr docs \<Rightarrow>
          (let idsToDelete = map doc_id docs;
               kept = filter (\<lambda>d. \<not> list_ex (\<lambda>i. same_value_zero i (doc_id d)) idsToDelete) (c_data c);
               deletedCount = length (c_data c) - length kept
           in Inr (deletedCount,
                   if deletedCount > 0 then saveCollection (rebuildIndexes (c\<lparr>c_data := kept\<rparr>))
                   else c\<lparr>c_data := kept\<rparr>)))"

section \<open>The scenario of the specification\<close>

text \<open>
  The documents, filters and update of the concrete scenario.  The scenario uses no
  \<^verbatim>\<open>$regex\<close>; where a closed statement needs a platform, it is the one that rejects
  every pattern.
\<close>

definition no_regexp :: regexp where
  "no_regexp pattern flags v = Inl SyntaxError"

definition docA :: jv where
  "docA = Obj [(''name'', Str ''A''), (''score'', Num 10)]"

definition docB :: jv where
  "docB = Obj [(''name'', Str ''B''), (''score'', Num 20)]"

definition q_gte15 :: jv where
  "q_gte15 = Obj [(''score'', Obj [(''$gte'', Num 15)])]"

definition q_gt12 :: jv where
  "q_gt12 = Obj [(''score'', Obj [(''$gt'', Num 12)])]"

definition q_nameA :: jv where
  "q_nameA = Obj [(''name'', Str ''A'')]"

definition u_inc5 :: jv where
  "u_inc5 = Obj [(''$inc'', Obj [(''score'', Num 5)])]"

text \<open>The stored documents: A and B as inserted, and A after the increment.\<close>

definition stored :: "string \<Rightarrow> string \<Rightarrow> int \<Rightarrow> jv \<Rightarrow> jv \<Rightarrow> document" where
  "stored gid name score created updated =
     [(''_id'', Str gid), (''name'', Str name), (''score'', Num score),
      (''createdAt'', created), (''updatedAt'', updated)]"

definition holding :: "document list \<Rightarrow> collection" where
  "holding ds = \<lparr>c_data = ds, c_indexes = [], c_dirty = True\<rparr>"

text \<open>
  The four mutations of the scenario in sequence, with the documents that remain at the
  end; \<open>g1\<close>, \<open>g2\<close> are the generated ids and \<open>n1\<close>, \<open>n2\<close>, \<open>n3\<close> the clock readings.
\<close>

definition scenario_remaining ::
  "regexp \<Rightarrow> string \<Rightarrow> string \<Rightarrow> jv \<Rightarrow> jv \<Rightarrow> jv \<Rightarrow> error + document list" where
  "scenario_remaining rx g1 g2 n1 n2 n3 =
     (case insertOne (Str g1) n1 docA empty_collection of
        (Inl e, c1) \<Rightarrow> Inl e
      | (Inr r1, c1) \<Rightarrow>
          (case insertOne (Str g2) n2 docB c1 of
             (Inl e, c2) \<Rightarrow> Inl e
           | (Inr r2, c2) \<Rightarrow>
               (case updateOne rx n3 q_nameA u_inc5 c2 of
                  Inl e \<Rightarrow> Inl e
                | Inr (r3, c3) \<Rightarrow>
                    (case deleteMany rx q_gt12 c3 of
                       Inl e \<Rightarrow> Inl e
                     | Inr (n, c4) \<Rightarrow> Inr (c_data c4)))))"


definition two_docs :: collection where
  "two_docs =
     holding [stored ''id1'' ''A'' 10 (Date ''2024-01-12T10:00:00.000Z'') (Date ''2024-01-12T10:00:00.000Z''),
              stored ''id2'' ''B'' 20 (Date ''2024-01-12T10:00:01.000Z'') (Date ''2024-01-12T10:00:01.000Z'')]"

section \<open>Consistency of indexes, and the collections of the examples\<close>

text \<open>
  An index is consistent with the collection when it is what \<^verbatim>\<open>_rebuildIndexes\<close> would
  build from the current documents.
\<close>

definition index_consistent :: "collection \<Rightarrow> bool" where
  "index_consistent c =
     list_all (\<lambda>(field, ix). data ix = build_index field (c_data c)) (c_indexes c)"

text \<open>
  A collection with a unique index on \<^verbatim>\<open>email\<close> and one document, a batch whose second
  element repeats the stored address, and a single document that repeats it.
\<close>

definition users :: collection where
  "users = snd (insertOne (Str ''id1'') (Date ''2024-01-12T10:00:00.000Z'')
                  (Obj [(''email'', Str ''a@tmu.ac.tz'')])
                  (createIndex ''email'' True empty_collection))"

definition dup_batch :: "(jv \<times> jv \<times> jv) list" where
  "dup_batch = [(Str ''id2'', Date ''2024-01-12T10:00:01.000Z'', Obj [(''email'', Str ''b@tmu.ac.tz'')]),
            (Str ''id3'', Date ''2024-01-12T10:00:02.000Z'', Obj [(''email'', Str ''a@tmu.ac.tz'')])]"

definition dup_doc :: jv where
  "dup_doc = Obj [(''email'', Str ''a@tmu.ac.tz'')]"

text \<open>
  A collection bound to a model (\<^verbatim>\<open>Model.constructor\<close> always creates the unique index
  on \<^verbatim>\<open>_id\<close>) holding the documents A and B, and an update that overwrites \<^verbatim>\<open>_id\<close>.
\<close>

definition members :: collection where
  "members =
     snd (insertOne (Str ''id2'') (Date ''2024-01-12T10:00:01.000Z'') docB
       (snd (insertOne (Str ''id1'') (Date ''2024-01-12T10:00:00.000Z'') docA
          (createIndex ''_id'' True empty_collection))))"

definition q_nameB :: jv where
  "q_nameB = Obj [(''name'', Str ''B'')]"

definition u_set_id :: jv where
  "u_set_id = Obj [(''$set'', Obj [(''_id'', Str ''id1'')])]"

section \<open>Sort keys, and a collection with a tie\<close>





section \<open>The aggregation pipeline\<close>

text \<open>\<^verbatim>\<open>Math.max(...xs)\<close> and \<^verbatim>\<open>Math.min(...xs)\<close> of a list that is not empty.\<close>

fun num_max :: "jv \<Rightarrow> jv \<Rightarrow> jv" where
  "num_max (Num a) (Num b) = Num (max a b)"
| "num_max (Num a) PInf = PInf"
| "num_max PInf (Num b) = PInf"
| "num_max PInf PInf = PInf"
| "num_max a b = NaN"

fun num_min :: "jv \<Rightarrow> jv \<Rightarrow> jv" where
  "num_min (Num a) (Num b) = Num (min a b)"
| "num_min (Num a) PInf = Num a"
| "num_min PInf (Num b) = Num b"
| "num_min PInf PInf = PInf"
| "num_min a b = NaN"

fun math_max :: "jv list \<Rightarrow> jv" where
  "math_max [] = NaN"
| "math_max [x] = to_num x"
| "math_max (x # y # ys) = num_max (to_num x) (math_max (y # ys))"

fun math_min :: "jv list \<Rightarrow> jv" where
  "math_min [] = PInf"
| "math_min [x] = to_num x"
| "math_min (x # y # ys) = num_min (to_num x) (math_min (y # ys))"

text \<open>
  \<^verbatim>\<open>sum / count\<close> with a positive count.  A quotient that is not an integer is not a
  number of the model.
\<close>

definition js_div :: "jv \<Rightarrow> nat \<Rightarrow> error + jv" where
  "js_div dividend n =
     (case to_num dividend of
        Num t \<Rightarrow> if int n dvd t then Inr (Num (t div int n)) else Inl Unsupported
      | PInf \<Rightarrow> Inr PInf
      | _ \<Rightarrow> Inr NaN)"

text \<open>
  The groups of \<^verbatim>\<open>_applyGroup\<close>: a \<^verbatim>\<open>Map\<close> from the group key to the documents of the
  group, in the order in which the keys first appear.  A key read from the documents
  through a \<^verbatim>\<open>$field\<close> reference is compared by \<^verbatim>\<open>SameValueZero\<close>; a literal key is
  the one value \<^verbatim>\<open>params._id\<close> for every document.
\<close>

fun group_push ::
  "(jv \<Rightarrow> jv \<Rightarrow> bool) \<Rightarrow> (jv \<times> document list) list \<Rightarrow> jv \<Rightarrow> document \<Rightarrow> (jv \<times> document list) list" where
  "group_push same [] k d = [(k, [d])]"
| "group_push same ((k', ds) # g) k d =
     (if same k' k then (k', ds @ [d]) # g else (k', ds) # group_push same g k d)"

text \<open>\<^verbatim>\<open>typeof params._id === 'string' && params._id.startsWith('$')\<close>\<close>

definition is_field_ref :: "jv \<Rightarrow> bool" where
  "is_field_ref k = (case k of Str s \<Rightarrow> starts_with s ''$'' | _ \<Rightarrow> False)"

text \<open>\<^verbatim>\<open>params._id\<close> read for one document; it throws when \<^verbatim>\<open>params\<close> has no properties to read.\<close>

definition group_key :: "jv \<Rightarrow> document \<Rightarrow> error + jv" where
  "group_key params doc =
     (if params = Undefined \<or> params = Null then Inl TypeError
      else
        (case get_prop params ''_id'' of
           Null \<Rightarrow> Inr (Str ''null'')
         | Str s \<Rightarrow> if starts_with s ''$'' then Inr (getNestedValue (Obj doc) (tl s)) else Inr (Str s)
         | k \<Rightarrow> Inr k))"

text \<open>
  One requested output field: \<^verbatim>\<open>const [opName, opField] = Object.entries(op)[0]\<close>, then
  \<^verbatim>\<open>opField.startsWith('$')\<close>, which only a string has, then the \<^verbatim>\<open>switch (opName)\<close>.
\<close>

definition accumulate :: "document list \<Rightarrow> jv \<Rightarrow> error + jv option" where
  "accumulate docs op =
     (case entries op of
        Inl e \<Rightarrow> Inl e
      | Inr [] \<Rightarrow> Inl TypeError
      | Inr ((opName, opField) # rest) \<Rightarrow>
          (case opField of
             Str s \<Rightarrow>
               (let fieldName = (if starts_with s ''$'' then tl s else s);
                    vals = map (\<lambda>d. getNestedValue (Obj d) fieldName) docs
                in if opName = ''$sum'' then
                     Inr (Some (foldl (\<lambda>acc v. js_add acc (js_or v (Num 0))) (Num 0) vals))
                   else if opName = ''$avg'' then
                     (let present = filter (\<lambda>v. v \<noteq> Null \<and> v \<noteq> Undefined) vals in
                      if present = [] then Inr (Some (Num 0))
                      else (case js_div (foldl js_add (Num 0) present) (length present) of
                              Inl e \<Rightarrow> Inl e | Inr q \<Rightarrow> Inr (Some q)))
                   else if opName = ''$max'' then
                     Inr (Some (math_max (map (\<lambda>v. js_or v (Num 0)) vals)))
                   else if opName = ''$min'' then
                     Inr (Some (math_min (map (\<lambda>v. js_or v PInf) vals)))
                   else if opName = ''$first'' then Inr (Some (hd vals))
                   else if opName = ''$last'' then Inr (Some (last vals))
                   else Inr None)
           | _ \<Rightarrow> Inl TypeError))"

text \<open>The result document of one group.\<close>

definition group_result :: "jv \<Rightarrow> jv \<times> document list \<Rightarrow> error + document" where
  "group_result params = (\<lambda>(k, docs).
     case entries params of
       Inl e \<Rightarrow> Inl e
     | Inr outputs \<Rightarrow>
         fold_m (\<lambda>result (field, op).
                   if field = ''_id'' then Inr result
                   else (case accumulate docs op of
                           Inl e \<Rightarrow> Inl e
                         | Inr None \<Rightarrow> Inr result
                         | Inr (Some v) \<Rightarrow> Inr (obj_set result field v)))
           [(''_id'', if k = Str ''null'' then Null else k)] outputs)"

text \<open>\<^verbatim>\<open>Collection._applyGroup\<close>\<close>

definition applyGroup :: "document list \<Rightarrow> jv \<Rightarrow> error + document list" where
  "applyGroup docs params =
     (case fold_m (\<lambda>groups doc.
                     case group_key params doc of
                       Inl e \<Rightarrow> Inl e
                     | Inr k \<Rightarrow>
                         Inr (group_push
                                (if is_field_ref (get_prop params ''_id'') then same_value_zero
                                 else (\<lambda>a b. True))
                                groups k doc)) [] docs of
        Inl e \<Rightarrow> Inl e
      | Inr groups \<Rightarrow> map_m (group_result params) groups)"

text \<open>One stage of \<^verbatim>\<open>Collection.aggregate\<close>.\<close>

definition apply_stage :: "regexp \<Rightarrow> document list \<Rightarrow> jv \<Rightarrow> error + document list" where
  "apply_stage rx results stage =
     (case entries stage of
        Inl e \<Rightarrow> Inl e
      | Inr [] \<Rightarrow> Inl TypeError
      | Inr ((operation, params) # rest) \<Rightarrow>
          if operation = ''$match'' then filter_m (\<lambda>d. matchDocument rx (Obj d) params) results
          else if operation = ''$sort'' then applySort results params
          else if operation = ''$limit'' then Inr (slice_to results params)
          else if operation = ''$skip'' then Inr (slice_from results params)
          else if operation = ''$project'' then map_m (\<lambda>d. applyProjection d params) results
          else if operation = ''$group'' then applyGroup results params
          else Inr results)"

text \<open>\<^verbatim>\<open>Collection.aggregate\<close>; the pipeline is an array of stages.\<close>

definition aggregate :: "regexp \<Rightarrow> jv list \<Rightarrow> collection \<Rightarrow> error + document list" where
  "aggregate rx pipeline c = fold_m (apply_stage rx) (c_data c) pipeline"

text \<open>The pipeline that counts the documents of a collection.\<close>

definition count_pipeline :: "jv list" where
  "count_pipeline = [Obj [(''$group'', Obj [(''_id'', Null), (''count'', Obj [(''$sum'', Num 1)])])]]"

text \<open>The pipeline that sums the scores.\<close>

definition total_pipeline :: "jv list" where
  "total_pipeline = [Obj [(''$group'', Obj [(''_id'', Null), (''total'', Obj [(''$sum'', Str ''$score'')])])]]"

text \<open>
  A collection with an index on \<^verbatim>\<open>email\<close> in which one document has no \<^verbatim>\<open>email\<close>,
  and the filter \<^verbatim>\<open>{email: undefined}\<close>.
\<close>

definition contacts :: collection where
  "contacts =
     snd (insertOne (Str ''id2'') (Date ''2024-01-12T10:00:01.000Z'') (Obj [(''name'', Str ''B'')])
       (snd (insertOne (Str ''id1'') (Date ''2024-01-12T10:00:00.000Z'')
               (Obj [(''name'', Str ''A''), (''email'', Str ''a@tmu.ac.tz'')])
               (createIndex ''email'' False empty_collection))))"

definition q_no_email :: jv where
  "q_no_email = Obj [(''email'', Undefined)]"

section \<open>The store and its files\<close>


fun assoc_set :: "('k \<times> 'v) list \<Rightarrow> 'k \<Rightarrow> 'v \<Rightarrow> ('k \<times> 'v) list" where
  "assoc_set [] k v = [(k, v)]"
| "assoc_set ((k', v') # kvs) k v =
     (if k' = k then (k, v) # kvs else (k', v') # assoc_set kvs k v)"
















section \<open>Schemas and models\<close>

text \<open>
  The rules of one schema field.  A rule that is absent is \<open>None\<close> or \<^verbatim>\<open>undefined\<close>.
  \<^verbatim>\<open>required\<close> and \<^verbatim>\<open>default\<close> may be functions: the model keeps the value the call
  returns.  \<^verbatim>\<open>match\<close> is a \<^verbatim>\<open>RegExp\<close> or a pair of a \<^verbatim>\<open>RegExp\<close> and a message; the
  validator uses only the \<^verbatim>\<open>test\<close> of the \<^verbatim>\<open>RegExp\<close>, which the model keeps as a
  predicate.  The other rules are the values the schema gives, whatever their form.
\<close>

datatype type_tag = TString | TNumber | TBoolean | TDate | TArray | TObject

datatype rule_value = Plain jv | Computed jv

record field_rules =
  r_type :: "type_tag option"
  r_required :: "rule_value option"
  r_default :: "rule_value option"
  r_enum :: jv
  r_minlength :: jv
  r_maxlength :: jv
  r_match :: "(string \<Rightarrow> bool) option"
  r_min :: jv
  r_max :: jv
  r_lowercase :: jv
  r_uppercase :: jv
  r_trim :: jv

definition no_rules :: field_rules where
  "no_rules =
     \<lparr>r_type = None, r_required = None, r_default = None, r_enum = Undefined,
      r_minlength = Undefined, r_maxlength = Undefined, r_match = None,
      r_min = Undefined, r_max = Undefined,
      r_lowercase = Undefined, r_uppercase = Undefined, r_trim = Undefined\<rparr>"

text \<open>
  A hook runs with the document as \<^verbatim>\<open>this\<close> and may change it or throw; what a hook
  does outside the document is not modelled.
\<close>

type_synonym hook = "document \<Rightarrow> error + document"

record schema =
  definition_of :: "(string \<times> field_rules) list"
  preSave :: "hook list"
  postSave :: "hook list"

fun type_name :: "type_tag \<Rightarrow> string" where
  "type_name TString = ''String''"
| "type_name TNumber = ''Number''"
| "type_name TBoolean = ''Boolean''"
| "type_name TDate = ''Date''"
| "type_name TArray = ''Array''"
| "type_name TObject = ''Object''"

fun is_string :: "jv \<Rightarrow> bool" where
  "is_string (Str s) = True"
| "is_string v = False"

fun is_number :: "jv \<Rightarrow> bool" where
  "is_number (Num n) = True"
| "is_number NaN = True"
| "is_number PInf = True"
| "is_number v = False"

fun is_boolean :: "jv \<Rightarrow> bool" where
  "is_boolean (Bool b) = True"
| "is_boolean v = False"

fun is_date :: "jv \<Rightarrow> bool" where
  "is_date (Date d) = True"
| "is_date v = False"

fun is_array :: "jv \<Rightarrow> bool" where
  "is_array (Arr xs) = True"
| "is_array v = False"

text \<open>
  The type check of \<^verbatim>\<open>_validate\<close>.  \<open>date_parses v\<close> stands for
  \<^verbatim>\<open>!isNaN(Date.parse(v))\<close>, which belongs to the platform.
\<close>

fun type_ok :: "(jv \<Rightarrow> bool) \<Rightarrow> type_tag \<Rightarrow> jv \<Rightarrow> bool" where
  "type_ok date_parses TString v = is_string v"
| "type_ok date_parses TNumber v = is_number v"
| "type_ok date_parses TBoolean v = is_boolean v"
| "type_ok date_parses TDate v = (is_date v \<or> date_parses v)"
| "type_ok date_parses TArray v = is_array v"
| "type_ok date_parses TObject v = True"

text \<open>\<^verbatim>\<open>value === undefined || value === null || value === ''\<close>\<close>

definition is_blank :: "jv \<Rightarrow> bool" where
  "is_blank v = (v = Undefined \<or> v = Null \<or> v = Str [])"

text \<open>The required check: the violation it records, if any.\<close>

definition required_violation :: "string \<Rightarrow> rule_value option \<Rightarrow> jv \<Rightarrow> (string \<times> jv) option" where
  "required_violation field rule v =
     (case rule of
        None \<Rightarrow> None
      | Some (Plain r) \<Rightarrow>
          if truthy r \<and> is_blank v
          then Some (field, if is_array r then get_prop r ''1'' else Str (field @ '' is required''))
          else None
      | Some (Computed r) \<Rightarrow>
          if truthy r \<and> is_blank v then Some (field, Str (field @ '' is required'')) else None)"

text \<open>\<^verbatim>\<open>xs.join(', ')\<close>, which only an array has.\<close>

definition js_join :: "jv \<Rightarrow> string \<Rightarrow> error + string" where
  "js_join v sep =
     (case v of
        Arr xs \<Rightarrow> Inr (join sep (map (\<lambda>x. if x = Undefined \<or> x = Null then [] else to_str x) xs))
      | _ \<Rightarrow> Inl TypeError)"

definition str_length :: "jv \<Rightarrow> jv" where
  "str_length v = (case v of Str s \<Rightarrow> Num (int (length s)) | _ \<Rightarrow> Undefined)"

text \<open>The checks of \<^verbatim>\<open>_validate\<close> on a value that is present, in the order of the code.\<close>

definition enum_errors :: "string \<Rightarrow> field_rules \<Rightarrow> jv \<Rightarrow> error + (string \<times> jv) list" where
  "enum_errors field rules v =
     (if truthy (r_enum rules) then
        (case js_includes (r_enum rules) v of
           Inl e \<Rightarrow> Inl e
         | Inr True \<Rightarrow> Inr []
         | Inr False \<Rightarrow>
             (case js_join (r_enum rules) '', '' of
                Inl e \<Rightarrow> Inl e
              | Inr text \<Rightarrow> Inr [(field, Str (field @ '' must be one of: '' @ text))]))
      else Inr [])"

definition string_errors :: "string \<Rightarrow> field_rules \<Rightarrow> jv \<Rightarrow> (string \<times> jv) list" where
  "string_errors field rules v =
     (case v of
        Str s \<Rightarrow>
          (if truthy (r_minlength rules) \<and> lt (str_length v) (r_minlength rules)
           then [(field, Str (field @ '' must be at least '' @ to_str (r_minlength rules) @ '' characters''))]
           else [])
          @ (if truthy (r_maxlength rules) \<and> gt (str_length v) (r_maxlength rules)
             then [(field, Str (field @ '' cannot exceed '' @ to_str (r_maxlength rules) @ '' characters''))]
             else [])
          @ (case r_match rules of
               Some test \<Rightarrow> if \<not> test s then [(field, Str (field @ '' format is invalid''))] else []
             | None \<Rightarrow> [])
      | _ \<Rightarrow> [])"

definition number_errors :: "string \<Rightarrow> field_rules \<Rightarrow> jv \<Rightarrow> (string \<times> jv) list" where
  "number_errors field rules v =
     (if is_number v then
        (if r_min rules \<noteq> Undefined \<and> lt v (r_min rules)
         then [(field, Str (field @ '' must be at least '' @ to_str (r_min rules)))] else [])
        @ (if r_max rules \<noteq> Undefined \<and> gt v (r_max rules)
           then [(field, Str (field @ '' cannot exceed '' @ to_str (r_max rules)))] else [])
      else [])"

definition type_errors :: "(jv \<Rightarrow> bool) \<Rightarrow> string \<Rightarrow> field_rules \<Rightarrow> jv \<Rightarrow> (string \<times> jv) list" where
  "type_errors date_parses field rules v =
     (case r_type rules of
        Some t \<Rightarrow>
          if type_ok date_parses t v then []
          else [(field, Str (field @ '' must be of type '' @ type_name t))]
      | None \<Rightarrow> [])"

text \<open>The body of the loop of \<^verbatim>\<open>_validate\<close> for one field: the violations it records.\<close>

definition field_errors ::
  "(jv \<Rightarrow> bool) \<Rightarrow> document \<Rightarrow> string \<times> field_rules \<Rightarrow> error + (string \<times> jv) list" where
  "field_errors date_parses doc = (\<lambda>(field, rules).
     let v = get_prop (Obj doc) field in
     case required_violation field (r_required rules) v of
       Some violation \<Rightarrow> Inr [violation]
     | None \<Rightarrow>
         if v = Undefined \<or> v = Null then Inr []
         else
           (case enum_errors field rules v of
              Inl e \<Rightarrow> Inl e
            | Inr es \<Rightarrow>
                Inr (type_errors date_parses field rules v @ es
                     @ string_errors field rules v @ number_errors field rules v)))"

text \<open>
  \<^verbatim>\<open>Model._validate\<close>: all fields are visited, and the collected violations are thrown
  as one \<open>ValidationError\<close>.
\<close>

definition validate :: "(jv \<Rightarrow> bool) \<Rightarrow> schema \<Rightarrow> document \<Rightarrow> error + unit" where
  "validate date_parses sch doc =
     (case map_m (field_errors date_parses doc) (definition_of sch) of
        Inl e \<Rightarrow> Inl e
      | Inr ess \<Rightarrow> if concat ess = [] then Inr () else Inl (ValidationError (concat ess)))"

text \<open>\<^verbatim>\<open>Model._applyDefaults\<close>\<close>

definition applyDefaults :: "schema \<Rightarrow> jv \<Rightarrow> document" where
  "applyDefaults sch doc =
     foldl (\<lambda>result (field, rules).
              if get_prop (Obj result) field = Undefined then
                (case r_default rules of
                   Some (Plain d) \<Rightarrow> if d \<noteq> Undefined then obj_set result field d else result
                 | Some (Computed d) \<Rightarrow> obj_set result field d
                 | None \<Rightarrow> result)
              else result)
       (spread [] doc) (definition_of sch)"

text \<open>
  \<^verbatim>\<open>toLowerCase\<close> and \<^verbatim>\<open>toUpperCase\<close> on the letters of ASCII; other characters are
  left as they are.
\<close>

definition lower_char :: "char \<Rightarrow> char" where
  "lower_char c =
     (case map_of (zip ''ABCDEFGHIJKLMNOPQRSTUVWXYZ'' ''abcdefghijklmnopqrstuvwxyz'') c of
        Some l \<Rightarrow> l | None \<Rightarrow> c)"

definition upper_char :: "char \<Rightarrow> char" where
  "upper_char c =
     (case map_of (zip ''abcdefghijklmnopqrstuvwxyz'' ''ABCDEFGHIJKLMNOPQRSTUVWXYZ'') c of
        Some u \<Rightarrow> u | None \<Rightarrow> c)"

text \<open>\<^verbatim>\<open>Model._transform\<close>\<close>

definition transform :: "schema \<Rightarrow> document \<Rightarrow> document" where
  "transform sch doc =
     foldl (\<lambda>result (field, rules).
              case get_prop (Obj result) field of
                Str s \<Rightarrow>
                  (let s1 = (if truthy (r_lowercase rules) then map lower_char s else s);
                       s2 = (if truthy (r_uppercase rules) then map upper_char s1 else s1);
                       s3 = (if truthy (r_trim rules) then trim s2 else s2)
                   in obj_set result field (Str s3))
              | _ \<Rightarrow> result)
       doc (definition_of sch)"

text \<open>
  \<^verbatim>\<open>Model.create\<close> for one document.  The wrapped document that is returned carries
  the stored fields; the methods and virtuals bound to it are not part of the model.
\<close>

definition create ::
  "(jv \<Rightarrow> bool) \<Rightarrow> schema \<Rightarrow> jv \<Rightarrow> jv \<Rightarrow> jv \<Rightarrow> collection \<Rightarrow> (error + document) \<times> collection" where
  "create date_parses sch gid now item c =
     (case fold_m (\<lambda>d h. h d) (transform sch (applyDefaults sch item)) (preSave sch) of
        Inl e \<Rightarrow> (Inl e, c)
      | Inr doc \<Rightarrow>
          (case validate date_parses sch doc of
             Inl e \<Rightarrow> (Inl e, c)
           | Inr u \<Rightarrow>
               (case insertOne gid now (Obj doc) c of
                  (Inl e, c') \<Rightarrow> (Inl e, c')
                | (Inr (i, stored_doc), c') \<Rightarrow>
                    (case fold_m (\<lambda>d h. h d) stored_doc (postSave sch) of
                       Inl e \<Rightarrow> (Inl e, c')
                     | Inr wrapped \<Rightarrow> (Inr wrapped, c')))))"

text \<open>\<^verbatim>\<open>Model.create\<close> for an array: one \<^verbatim>\<open>create\<close> per element.\<close>

fun create_many ::
  "(jv \<Rightarrow> bool) \<Rightarrow> schema \<Rightarrow> (jv \<times> jv \<times> jv) list \<Rightarrow> collection \<Rightarrow> (error + document list) \<times> collection" where
  "create_many date_parses sch [] c = (Inr [], c)"
| "create_many date_parses sch ((gid, now, item) # rest) c =
     (case create date_parses sch gid now item c of
        (Inl e, c') \<Rightarrow> (Inl e, c')
      | (Inr d, c') \<Rightarrow>
          (case create_many date_parses sch rest c' of
             (Inl e, c'') \<Rightarrow> (Inl e, c'')
           | (Inr ds, c'') \<Rightarrow> (Inr (d # ds), c'')))"

text \<open>
  \<^verbatim>\<open>Model.constructor\<close>: the collection of a model has the indexes the schema declares
  and, always, the unique index on \<^verbatim>\<open>_id\<close>.
\<close>

definition model_collection :: "(string \<times> bool) list \<Rightarrow> collection \<Rightarrow> collection" where
  "model_collection declared c =
     createIndex ''_id'' True (foldl (\<lambda>c (field, uniq). createIndex field uniq c) c declared)"

text \<open>
  Two schemas for a name of at most five characters: the bound as a number, and the bound
  with its message, the form the schemas of the repository use.
\<close>

definition name_schema :: "jv \<Rightarrow> schema" where
  "name_schema bound =
     \<lparr>definition_of = [(''name'', no_rules\<lparr>r_type := Some TString, r_maxlength := bound\<rparr>)],
      preSave = [], postSave = []\<rparr>"

definition long_name :: jv where
  "long_name = Obj [(''name'', Str ''abcdefgh'')]"

definition no_date_parse :: "jv \<Rightarrow> bool" where
  "no_date_parse v = False"

definition bound_with_message :: jv where
  "bound_with_message = Arr [Num 5, Str ''Name cannot exceed 5 characters'']"

section \<open>The update path on a heap\<close>

text \<open>
  \<^verbatim>\<open>_applyUpdate\<close> starts from \<^verbatim>\<open>{ ...doc }\<close>, a copy of the top level of the document:
  the arrays and objects below the top level are the same objects in the old document
  and in the copy, and \<^verbatim>\<open>push\<close> and the assignments of \<^verbatim>\<open>_setNestedValue\<close> change
  them in place.  This section models that: arrays and objects are cells of a heap, a
  value is a primitive (or a date, which nothing changes) or the address of a cell, and
  the operators write to the heap.  Every function returns the heap also when it throws.
\<close>

datatype hval = Prim jv | Ref nat

datatype cell = CObj "(string \<times> hval) list" | CArr "hval list"

type_synonym heap = "cell list"

definition alloc :: "cell \<Rightarrow> heap \<Rightarrow> nat \<times> heap" where
  "alloc c h = (length h, h @ [c])"

definition h_cell :: "heap \<Rightarrow> nat \<Rightarrow> cell option" where
  "h_cell h a = (if a < length h then Some (h ! a) else None)"

text \<open>The tree a value stands for, read with enough fuel for the depth of the heap.\<close>

fun reify :: "nat \<Rightarrow> heap \<Rightarrow> hval \<Rightarrow> jv option" where
  "reify n h (Prim p) = Some p"
| "reify 0 h (Ref a) = None"
| "reify (Suc n) h (Ref a) =
     (case h_cell h a of
        None \<Rightarrow> None
      | Some (CObj kvs) \<Rightarrow>
          map_option Obj (those (map (\<lambda>(k, v). map_option (Pair k) (reify n h v)) kvs))
      | Some (CArr xs) \<Rightarrow> map_option Arr (those (map (reify n h) xs)))"

definition snapshot :: "heap \<Rightarrow> hval \<Rightarrow> jv option" where
  "snapshot h v = reify (Suc (length h)) h v"

fun h_truthy :: "hval \<Rightarrow> bool" where
  "h_truthy (Prim p) = truthy p"
| "h_truthy (Ref a) = True"

text \<open>\<^verbatim>\<open>a === b\<close> and \<^verbatim>\<open>SameValueZero\<close>: two addresses are equal when they are the same.\<close>

fun h_strict_eq :: "hval \<Rightarrow> hval \<Rightarrow> bool" where
  "h_strict_eq (Prim a) (Prim b) = strict_eq a b"
| "h_strict_eq (Ref a) (Ref b) = (a = b)"
| "h_strict_eq x y = False"

fun h_same_value_zero :: "hval \<Rightarrow> hval \<Rightarrow> bool" where
  "h_same_value_zero (Prim a) (Prim b) = same_value_zero a b"
| "h_same_value_zero (Ref a) (Ref b) = (a = b)"
| "h_same_value_zero x y = False"

text \<open>\<^verbatim>\<open>v[key]\<close>\<close>

fun h_prop :: "heap \<Rightarrow> hval \<Rightarrow> string \<Rightarrow> hval" where
  "h_prop h (Prim p) k = Prim (get_prop p k)"
| "h_prop h (Ref a) k =
     (case h_cell h a of
        Some (CObj kvs) \<Rightarrow> (case map_of kvs k of Some v \<Rightarrow> v | None \<Rightarrow> Prim Undefined)
      | Some (CArr xs) \<Rightarrow>
          (if k = ''length'' then Prim (Num (int (length xs)))
           else case array_index k of
               Some i \<Rightarrow> if i < length xs then xs ! i else Prim Undefined
             | None \<Rightarrow> Prim Undefined)
      | None \<Rightarrow> Prim Undefined)"

definition h_getNestedValue :: "heap \<Rightarrow> hval \<Rightarrow> string \<Rightarrow> hval" where
  "h_getNestedValue h obj path =
     foldl (\<lambda>current key.
              if h_truthy current \<and> h_prop h current key \<noteq> Prim Undefined then h_prop h current key
              else Prim Undefined)
           obj (split_dot path)"

fun h_indexed :: "nat \<Rightarrow> hval list \<Rightarrow> (string \<times> hval) list" where
  "h_indexed i [] = []"
| "h_indexed i (x # xs) = (show_nat i, x) # h_indexed (Suc i) xs"

text \<open>\<^verbatim>\<open>Object.entries(v)\<close>\<close>

definition h_entries :: "heap \<Rightarrow> hval \<Rightarrow> error + (string \<times> hval) list" where
  "h_entries h v =
     (case v of
        Prim p \<Rightarrow>
          (case entries p of Inl e \<Rightarrow> Inl e | Inr kvs \<Rightarrow> Inr (map (\<lambda>(k, x). (k, Prim x)) kvs))
      | Ref a \<Rightarrow>
          (case h_cell h a of
             Some (CObj kvs) \<Rightarrow> Inr kvs
           | Some (CArr xs) \<Rightarrow> Inr (h_indexed 0 xs)
           | None \<Rightarrow> Inr []))"

text \<open>The assignment \<^verbatim>\<open>current[k] = v\<close>, in place.\<close>

definition h_set_prop :: "hval \<Rightarrow> string \<Rightarrow> hval \<Rightarrow> heap \<Rightarrow> (error + unit) \<times> heap" where
  "h_set_prop cur k v h =
     (case cur of
        Prim p \<Rightarrow> (case set_prop p k Undefined of Inl e \<Rightarrow> (Inl e, h) | Inr r \<Rightarrow> (Inl Unsupported, h))
      | Ref a \<Rightarrow>
          (case h_cell h a of
             Some (CObj kvs) \<Rightarrow> (Inr (), h[a := CObj (assoc_set kvs k v)])
           | Some (CArr xs) \<Rightarrow>
               (case array_index k of
                  Some i \<Rightarrow>
                    if i < length xs then (Inr (), h[a := CArr (xs[i := v])])
                    else if i = length xs then (Inr (), h[a := CArr (xs @ [v])])
                    else (Inl Unsupported, h)
                | None \<Rightarrow> (Inl Unsupported, h))
           | None \<Rightarrow> (Inl Unsupported, h)))"

text \<open>\<^verbatim>\<open>Collection._setNestedValue\<close>, on the keys of the path, in place.\<close>

fun h_set_path :: "hval \<Rightarrow> string list \<Rightarrow> hval \<Rightarrow> heap \<Rightarrow> (error + unit) \<times> heap" where
  "h_set_path cur [] v h = (Inr (), h)"
| "h_set_path cur [k] v h = h_set_prop cur k v h"
| "h_set_path cur (k # k' # ks) v h =
     (if h_truthy (h_prop h cur k) then h_set_path (h_prop h cur k) (k' # ks) v h
      else
        (case alloc (CObj []) h of
           (a, h1) \<Rightarrow>
             (case h_set_prop cur k (Ref a) h1 of
                (Inl e, h2) \<Rightarrow> (Inl e, h2)
              | (Inr u, h2) \<Rightarrow> h_set_path (Ref a) (k' # ks) v h2)))"

text \<open>\<^verbatim>\<open>delete current[k]\<close> and \<^verbatim>\<open>Collection._deleteNestedValue\<close>, in place.\<close>

definition h_delete_prop :: "hval \<Rightarrow> string \<Rightarrow> heap \<Rightarrow> (error + unit) \<times> heap" where
  "h_delete_prop cur k h =
     (case cur of
        Prim p \<Rightarrow> (case delete_prop p k of Inl e \<Rightarrow> (Inl e, h) | Inr r \<Rightarrow> (Inr (), h))
      | Ref a \<Rightarrow>
          (case h_cell h a of
             Some (CObj kvs) \<Rightarrow> (Inr (), h[a := CObj (filter (\<lambda>(k', x). k' \<noteq> k) kvs)])
           | Some (CArr xs) \<Rightarrow>
               (if k = ''length'' then (Inl TypeError, h)
                else case array_index k of
                    Some i \<Rightarrow> if i < length xs then (Inl Unsupported, h) else (Inr (), h)
                  | None \<Rightarrow> (Inr (), h))
           | None \<Rightarrow> (Inr (), h)))"

fun h_delete_path :: "hval \<Rightarrow> string list \<Rightarrow> heap \<Rightarrow> (error + unit) \<times> heap" where
  "h_delete_path cur [] h = (Inr (), h)"
| "h_delete_path cur [k] h = h_delete_prop cur k h"
| "h_delete_path cur (k # k' # ks) h =
     (if h_truthy (h_prop h cur k) then h_delete_path (h_prop h cur k) (k' # ks) h
      else (Inr (), h))"

text \<open>A loop over entries whose body writes to the heap and may throw.\<close>

fun h_each :: "('a \<Rightarrow> heap \<Rightarrow> (error + unit) \<times> heap) \<Rightarrow> 'a list \<Rightarrow> heap \<Rightarrow> (error + unit) \<times> heap" where
  "h_each f [] h = (Inr (), h)"
| "h_each f (x # xs) h =
     (case f x h of (Inl e, h') \<Rightarrow> (Inl e, h') | (Inr u, h') \<Rightarrow> h_each f xs h')"

text \<open>\<^verbatim>\<open>current.push(...ys)\<close>: the array itself grows.\<close>

definition h_push :: "hval \<Rightarrow> hval list \<Rightarrow> heap \<Rightarrow> (error + unit) \<times> heap" where
  "h_push cur ys h =
     (case cur of
        Ref a \<Rightarrow>
          (case h_cell h a of
             Some (CArr xs) \<Rightarrow> (Inr (), h[a := CArr (xs @ ys)])
           | _ \<Rightarrow> (Inl TypeError, h))
      | Prim p \<Rightarrow> (Inl TypeError, h))"

definition h_iterate :: "heap \<Rightarrow> hval \<Rightarrow> error + hval list" where
  "h_iterate h v =
     (case v of
        Ref a \<Rightarrow> (case h_cell h a of Some (CArr xs) \<Rightarrow> Inr xs | _ \<Rightarrow> Inl TypeError)
      | Prim p \<Rightarrow> (case iterate p of Inl e \<Rightarrow> Inl e | Inr xs \<Rightarrow> Inr (map Prim xs)))"

text \<open>\<^verbatim>\<open>this.db._getNestedValue(result, field) || dflt\<close>, a fresh array when \<open>dflt\<close> is \<^verbatim>\<open>[]\<close>.\<close>

definition h_current_array :: "hval \<Rightarrow> string \<Rightarrow> heap \<Rightarrow> hval \<times> heap" where
  "h_current_array result field h =
     (let cur = h_getNestedValue h result field in
      if h_truthy cur then (cur, h) else (case alloc (CArr []) h of (a, h1) \<Rightarrow> (Ref a, h1)))"

definition h_push_field :: "hval \<Rightarrow> string \<times> hval \<Rightarrow> heap \<Rightarrow> (error + unit) \<times> heap" where
  "h_push_field result = (\<lambda>(field, v) h.
     case h_current_array result field h of
       (current, h1) \<Rightarrow>
         if v = Prim Undefined \<or> v = Prim Null then (Inl TypeError, h1)
         else
           (case (if h_truthy (h_prop h1 v ''$each'')
                  then (case h_iterate h1 (h_prop h1 v ''$each'') of
                          Inl e \<Rightarrow> (Inl e, h1)
                        | Inr ys \<Rightarrow> h_push current ys h1)
                  else h_push current [v] h1) of
              (Inl e, h2) \<Rightarrow> (Inl e, h2)
            | (Inr u, h2) \<Rightarrow> h_set_path result (split_dot field) current h2))"

fun h_typeof_object :: "hval \<Rightarrow> bool" where
  "h_typeof_object (Prim p) = typeof_object p"
| "h_typeof_object (Ref a) = True"

definition h_elements :: "heap \<Rightarrow> hval \<Rightarrow> hval list option" where
  "h_elements h v =
     (case v of
        Ref a \<Rightarrow> (case h_cell h a of Some (CArr xs) \<Rightarrow> Some xs | _ \<Rightarrow> None)
      | Prim p \<Rightarrow> None)"

definition h_pull_field :: "regexp \<Rightarrow> hval \<Rightarrow> string \<times> hval \<Rightarrow> heap \<Rightarrow> (error + unit) \<times> heap" where
  "h_pull_field rx result = (\<lambda>(field, v) h.
     case h_current_array result field h of
       (current, h1) \<Rightarrow>
         (case h_elements h1 current of
            None \<Rightarrow> (Inl TypeError, h1)
          | Some xs \<Rightarrow>
              (case filter_m (\<lambda>item.
                       if h_typeof_object v then
                         (case (snapshot h1 item, snapshot h1 v) of
                            (Some i, Some q) \<Rightarrow>
                              (case matchDocument rx i q of Inl e \<Rightarrow> Inl e | Inr b \<Rightarrow> Inr (\<not> b))
                          | _ \<Rightarrow> Inl Unsupported)
                       else Inr (\<not> h_strict_eq item v)) xs of
                 Inl e \<Rightarrow> (Inl e, h1)
               | Inr filtered \<Rightarrow>
                   (case alloc (CArr filtered) h1 of
                      (a, h2) \<Rightarrow> h_set_path result (split_dot field) (Ref a) h2))))"

definition h_includes :: "heap \<Rightarrow> hval \<Rightarrow> hval \<Rightarrow> error + bool" where
  "h_includes h current v =
     (case current of
        Ref a \<Rightarrow>
          (case h_cell h a of
             Some (CArr xs) \<Rightarrow> Inr (list_ex (\<lambda>x. h_same_value_zero x v) xs)
           | _ \<Rightarrow> Inl TypeError)
      | Prim p \<Rightarrow>
          (case snapshot h v of Some t \<Rightarrow> js_includes p t | None \<Rightarrow> Inl Unsupported))"

definition h_addToSet_field :: "hval \<Rightarrow> string \<times> hval \<Rightarrow> heap \<Rightarrow> (error + unit) \<times> heap" where
  "h_addToSet_field result = (\<lambda>(field, v) h.
     case h_current_array result field h of
       (current, h1) \<Rightarrow>
         (case h_includes h1 current v of
            Inl e \<Rightarrow> (Inl e, h1)
          | Inr present \<Rightarrow>
              (case (if present then (Inr (), h1) else h_push current [v] h1) of
                 (Inl e, h2) \<Rightarrow> (Inl e, h2)
               | (Inr u, h2) \<Rightarrow> h_set_path result (split_dot field) current h2)))"

definition h_inc_field :: "hval \<Rightarrow> string \<times> hval \<Rightarrow> heap \<Rightarrow> (error + unit) \<times> heap" where
  "h_inc_field result = (\<lambda>(field, v) h.
     let cur = h_getNestedValue h result field;
         current = (if h_truthy cur then cur else Prim (Num 0))
     in case (snapshot h current, snapshot h v) of
          (Some a, Some b) \<Rightarrow> h_set_path result (split_dot field) (Prim (js_add a b)) h
        | _ \<Rightarrow> (Inl Unsupported, h))"

text \<open>One case of the \<^verbatim>\<open>switch (op)\<close> of \<^verbatim>\<open>_applyUpdate\<close>, on the copy \<open>result\<close>.\<close>

definition h_fields ::
  "(string \<times> hval \<Rightarrow> heap \<Rightarrow> (error + unit) \<times> heap) \<Rightarrow> hval \<Rightarrow> heap \<Rightarrow> (error + unit) \<times> heap" where
  "h_fields f operand h =
     (case h_entries h operand of Inl e \<Rightarrow> (Inl e, h) | Inr fs \<Rightarrow> h_each f fs h)"

definition h_apply_operator :: "regexp \<Rightarrow> hval \<Rightarrow> string \<times> hval \<Rightarrow> heap \<Rightarrow> (error + unit) \<times> heap" where
  "h_apply_operator rx result = (\<lambda>(op, operand) h.
     if op = ''$set'' then
       h_fields (\<lambda>(field, v). h_set_path result (split_dot field) v) operand h
     else if op = ''$unset'' then
       h_fields (\<lambda>(field, v). h_delete_path result (split_dot field)) operand h
     else if op = ''$inc'' then h_fields (h_inc_field result) operand h
     else if op = ''$push'' then h_fields (h_push_field result) operand h
     else if op = ''$pull'' then h_fields (h_pull_field rx result) operand h
     else if op = ''$addToSet'' then h_fields (h_addToSet_field result) operand h
     else if \<not> starts_with op ''$'' then h_set_prop result op operand h
     else (Inr (), h))"

text \<open>
  \<^verbatim>\<open>Collection._applyUpdate\<close>: \<^verbatim>\<open>const result = { ...doc }\<close> is a new cell with the
  properties of the document, which still point to the cells of the old one.
\<close>

definition h_applyUpdate :: "regexp \<Rightarrow> nat \<Rightarrow> hval \<Rightarrow> heap \<Rightarrow> (error + nat) \<times> heap" where
  "h_applyUpdate rx doc update h =
     (case h_entries h (Ref doc) of
        Inl e \<Rightarrow> (Inl e, h)
      | Inr props \<Rightarrow>
          (case alloc (CObj props) h of
             (r, h1) \<Rightarrow>
               (case h_entries h1 update of
                  Inl e \<Rightarrow> (Inl e, h1)
                | Inr ops \<Rightarrow>
                    (case h_each (h_apply_operator rx (Ref r)) ops h1 of
                       (Inl e, h2) \<Rightarrow> (Inl e, h2)
                     | (Inr u, h2) \<Rightarrow> (Inr r, h2)))))"

text \<open>A raw collection on the heap: the addresses of its documents.\<close>

record hcollection =
  hc_heap :: heap
  hc_data :: "nat list"

text \<open>
  The three lines that \<^verbatim>\<open>updateOne\<close>, \<^verbatim>\<open>updateMany\<close> and \<^verbatim>\<open>findByIdAndUpdate\<close>
  share: build the updated document, stamp it, assign it to \<^verbatim>\<open>this._data[index]\<close>.
\<close>

definition h_replace_at :: "regexp \<Rightarrow> jv \<Rightarrow> hval \<Rightarrow> nat \<Rightarrow> hcollection \<Rightarrow> (error + nat) \<times> hcollection" where
  "h_replace_at rx now update i hc =
     (case h_applyUpdate rx (hc_data hc ! i) update (hc_heap hc) of
        (Inl e, h1) \<Rightarrow> (Inl e, hc\<lparr>hc_heap := h1\<rparr>)
      | (Inr r, h1) \<Rightarrow>
          (case h_set_prop (Ref r) ''updatedAt'' (Prim now) h1 of
             (Inl e, h2) \<Rightarrow> (Inl e, hc\<lparr>hc_heap := h2\<rparr>)
           | (Inr u, h2) \<Rightarrow> (Inr r, \<lparr>hc_heap = h2, hc_data = (hc_data hc)[i := r]\<rparr>)))"

text \<open>\<^verbatim>\<open>this._data.findIndex(d => d._id === id)\<close>\<close>

fun h_findIndex :: "heap \<Rightarrow> hval \<Rightarrow> nat list \<Rightarrow> nat option" where
  "h_findIndex h i [] = None"
| "h_findIndex h i (d # ds) =
     (if h_strict_eq (h_prop h (Ref d) ''_id'') i then Some 0 else map_option Suc (h_findIndex h i ds))"

text \<open>\<^verbatim>\<open>Collection.findByIdAndUpdate\<close>: \<open>None\<close> is \<^verbatim>\<open>null\<close>.\<close>

definition h_findByIdAndUpdate ::
  "regexp \<Rightarrow> jv \<Rightarrow> hval \<Rightarrow> hval \<Rightarrow> hcollection \<Rightarrow> (error + nat option) \<times> hcollection" where
  "h_findByIdAndUpdate rx now i update hc =
     (case h_findIndex (hc_heap hc) i (hc_data hc) of
        None \<Rightarrow> (Inr None, hc)
      | Some n \<Rightarrow>
          (case h_replace_at rx now update n hc of
             (Inl e, hc') \<Rightarrow> (Inl e, hc')
           | (Inr r, hc') \<Rightarrow> (Inr (Some r), hc')))"

text \<open>
  \<^verbatim>\<open>Collection.updateOne\<close> on a collection without indexes: \<^verbatim>\<open>findOne\<close> scans the
  documents and takes the first match, which is then found again through its
  \<^verbatim>\<open>_id\<close>.  The query only reads, so it is evaluated on the trees of the documents.
\<close>

definition h_matching :: "regexp \<Rightarrow> heap \<Rightarrow> jv \<Rightarrow> nat list \<Rightarrow> error + nat list" where
  "h_matching rx h query ds =
     (case entries query of
        Inl e \<Rightarrow> Inl e
      | Inr kvs \<Rightarrow>
          if kvs = [] then Inr ds
          else filter_m (\<lambda>d. case snapshot h (Ref d) of
                                None \<Rightarrow> Inl Unsupported
                              | Some t \<Rightarrow> matchDocument rx t query) ds)"

definition h_updateOne ::
  "regexp \<Rightarrow> jv \<Rightarrow> jv \<Rightarrow> hval \<Rightarrow> hcollection \<Rightarrow> (error + nat \<times> nat) \<times> hcollection" where
  "h_updateOne rx now query update hc =
     (case h_matching rx (hc_heap hc) (default_query query) (hc_data hc) of
        Inl e \<Rightarrow> (Inl e, hc)
      | Inr [] \<Rightarrow> (Inr (0, 0), hc)
      | Inr (doc # others) \<Rightarrow>
          (case h_findIndex (hc_heap hc) (h_prop (hc_heap hc) (Ref doc) ''_id'') (hc_data hc) of
             None \<Rightarrow> (Inr (0, 0), hc)
           | Some i \<Rightarrow>
               (case h_replace_at rx now update i hc of
                  (Inl e, hc') \<Rightarrow> (Inl e, hc')
                | (Inr r, hc') \<Rightarrow> (Inr (1, 1), hc'))))"

text \<open>The documents of a collection as trees.\<close>

definition h_documents :: "hcollection \<Rightarrow> jv option list" where
  "h_documents hc = map (\<lambda>a. snapshot (hc_heap hc) (Ref a)) (hc_data hc)"

text \<open>
  A collection with one document \<^verbatim>\<open>{_id: "id1", tags: ["a"], n: 5}\<close>; the heap also
  holds the fields \<^verbatim>\<open>{tags: "b", n: 1}\<close> of the update \<^verbatim>\<open>{$push: {tags: "b", n: 1}}\<close>.
\<close>

definition tagged :: hcollection where
  "tagged =
     \<lparr>hc_heap = [CObj [(''_id'', Prim (Str ''id1'')), (''tags'', Ref 1), (''n'', Prim (Num 5))],
                 CArr [Prim (Str ''a'')],
                 CObj [(''$push'', Ref 3)],
                 CObj [(''tags'', Prim (Str ''b'')), (''n'', Prim (Num 1))]],
      hc_data = [0]\<rparr>"

definition q_id1 :: jv where
  "q_id1 = Obj [(''_id'', Str ''id1'')]"

text \<open>The ids an index holds for a value: \<^verbatim>\<open>data.get(value) || []\<close>.\<close>

definition ids_of :: "jmap \<Rightarrow> jv \<Rightarrow> jv list" where
  "ids_of m v = (case map_get m v of Some l \<Rightarrow> l | None \<Rightarrow> [])"

section \<open>Properties of the scenario\<close>

lemmas scenario_defs =
  docA_def docB_def q_gte15_def q_gt12_def q_nameA_def u_inc5_def stored_def holding_def
  insertOne_def new_document_def spread_def js_or_def empty_collection_def
  saveCollection_def doc_id_def find_def findOne_def matchQuery_def default_query_def entries_def
  no_options_def matchDocument.simps getNestedValue_def match_op_def gte_def gt_def js_lt_def
  updateOne_def replace_at_def applyUpdate_def apply_operator_def inc_field_def setNestedValue_def
  js_add_def rebuildIndexes_def deleteMany_def slice_to_def slice_bound_def to_integer_def
  to_num_def Let_def

lemma scenario_insert_A:
  "insertOne (Str g1) n1 docA empty_collection =
     (Inr (Str g1, stored g1 ''A'' 10 n1 n1), holding [stored g1 ''A'' 10 n1 n1])"
  by (simp add: scenario_defs)

lemma scenario_insert_B:
  "insertOne (Str g2) n2 docB (holding [stored g1 ''A'' 10 n1 n1]) =
     (Inr (Str g2, stored g2 ''B'' 20 n2 n2),
      holding [stored g1 ''A'' 10 n1 n1, stored g2 ''B'' 20 n2 n2])"
  by (simp add: scenario_defs)

lemma scenario_find:
  "find rx q_gte15 no_options (holding [stored g1 ''A'' 10 n1 n1, stored g2 ''B'' 20 n2 n2]) =
     Inr [stored g2 ''B'' 20 n2 n2]"
  by (simp add: scenario_defs)

lemma scenario_update:
  "updateOne rx n3 q_nameA u_inc5 (holding [stored g1 ''A'' 10 n1 n1, stored g2 ''B'' 20 n2 n2]) =
     Inr (\<lparr>matchedCount = 1, modifiedCount = 1, document = Some (stored g1 ''A'' 15 n1 n3)\<rparr>,
          holding [stored g1 ''A'' 15 n1 n3, stored g2 ''B'' 20 n2 n2])"
  by (simp add: scenario_defs)

lemma scenario_fetch:
  "findOne rx q_nameA (holding [stored g1 ''A'' 15 n1 n3, stored g2 ''B'' 20 n2 n2]) =
     Inr (Some (stored g1 ''A'' 15 n1 n3))"
  by (simp add: scenario_defs)

lemma scenario_delete:
  "deleteMany rx q_gt12 (holding [stored g1 ''A'' 15 n1 n3, stored g2 ''B'' 20 n2 n2]) =
     Inr (2, holding [])"
  by (simp add: scenario_defs)

lemma scenario_remaining_eq: "scenario_remaining rx g1 g2 n1 n2 n3 = Inr []"
  by (simp add: scenario_remaining_def scenario_insert_A scenario_insert_B scenario_update
      scenario_delete) (simp add: holding_def)

text \<open>
  Claim C1, as the specification states it: after the two inserts, the increment of A and
  \<^verbatim>\<open>deleteMany({score:{$gt:12}})\<close>, exactly one document remains, A with score 15.
  On the code nothing remains: at that point A has score 15, which exceeds 12 as well.
\<close>

theorem scenario_counterexample:
  "scenario_remaining no_regexp ''65a1b2c30123456789abcdef'' ''65a1b2c3fedcba9876543210''
     (Date ''2024-01-12T10:00:00.000Z'') (Date ''2024-01-12T10:00:01.000Z'')
     (Date ''2024-01-12T10:00:02.000Z'') = Inr []"
  by (rule scenario_remaining_eq)

text \<open>
  Claim C1, amended: whatever ids are generated and whatever the clock reads,
  \<^verbatim>\<open>find({score:{$gte:15}})\<close> returns exactly B; after the increment, fetching A yields
  score 15; \<^verbatim>\<open>deleteMany({score:{$gt:12}})\<close> then removes both documents and reports
  \<^verbatim>\<open>deletedCount\<close> 2, and the collection is empty.
\<close>

theorem scenario_amended:
  "insertOne (Str g1) n1 docA empty_collection =
     (Inr (Str g1, stored g1 ''A'' 10 n1 n1), holding [stored g1 ''A'' 10 n1 n1])
   \<and> insertOne (Str g2) n2 docB (holding [stored g1 ''A'' 10 n1 n1]) =
     (Inr (Str g2, stored g2 ''B'' 20 n2 n2),
      holding [stored g1 ''A'' 10 n1 n1, stored g2 ''B'' 20 n2 n2])
   \<and> find rx q_gte15 no_options (holding [stored g1 ''A'' 10 n1 n1, stored g2 ''B'' 20 n2 n2]) =
     Inr [stored g2 ''B'' 20 n2 n2]
   \<and> updateOne rx n3 q_nameA u_inc5 (holding [stored g1 ''A'' 10 n1 n1, stored g2 ''B'' 20 n2 n2]) =
     Inr (\<lparr>matchedCount = 1, modifiedCount = 1, document = Some (stored g1 ''A'' 15 n1 n3)\<rparr>,
          holding [stored g1 ''A'' 15 n1 n3, stored g2 ''B'' 20 n2 n2])
   \<and> findOne rx q_nameA (holding [stored g1 ''A'' 15 n1 n3, stored g2 ''B'' 20 n2 n2]) =
     Inr (Some (stored g1 ''A'' 15 n1 n3))
   \<and> getNestedValue (Obj (stored g1 ''A'' 15 n1 n3)) ''score'' = Num 15
   \<and> deleteMany rx q_gt12 (holding [stored g1 ''A'' 15 n1 n3, stored g2 ''B'' 20 n2 n2]) =
     Inr (2, holding [])
   \<and> scenario_remaining rx g1 g2 n1 n2 n3 = Inr []"
  using scenario_insert_A [of g1 n1] scenario_insert_B [of g2 n2 g1 n1]
    scenario_find [of rx g1 n1 g2 n2] scenario_update [of rx n3 g1 n1 g2 n2]
    scenario_fetch [of rx g1 n1 n3 g2 n2] scenario_delete [of rx g1 n1 n3 g2 n2]
    scenario_remaining_eq [of rx g1 g2 n1 n2 n3]
  by (simp add: getNestedValue_def stored_def)

section \<open>Counts reported by the update operations\<close>

lemma strict_eq_iff: "strict_eq a b \<longleftrightarrow> a = b \<and> strict_eq a a"
  by (cases a; cases b) auto

lemma map_of_obj_set: "map_of (obj_set kvs k v) k = Some v"
  by (induction kvs) auto

lemma get_prop_obj_set: "get_prop (Obj (obj_set kvs k v)) k = v"
  by (simp add: map_of_obj_set)









lemma updateOne_cases:
  assumes "updateOne rx now query update c = Inr (r, c')"
  shows "(matchedCount r = 0 \<and> modifiedCount r = 0 \<and> c' = c)
       \<or> (\<exists>doc i u ds. findIndex (doc_id doc) (c_data c) = Some i
             \<and> replace_at rx now update i (c_data c) = Inr (u, ds)
             \<and> r = \<lparr>matchedCount = 1, modifiedCount = 1, document = Some u\<rparr>
             \<and> c' = saveCollection (rebuildIndexes (c\<lparr>c_data := ds\<rparr>)))"
proof (cases "findOne rx query c")
  case (Inl e)
  with assms show ?thesis by (simp add: updateOne_def)
next
  case (Inr found)
  show ?thesis
  proof (cases found)
    case None
    with Inr assms show ?thesis by (auto simp: updateOne_def)
  next
    case (Some doc)
    show ?thesis
    proof (cases "findIndex (doc_id doc) (c_data c)")
      case None
      with Inr Some assms show ?thesis by (auto simp: updateOne_def)
    next
      case (Some i)
      show ?thesis
      proof (cases "replace_at rx now update i (c_data c)")
        case (Inl e)
        with Inr \<open>found = Some doc\<close> Some assms show ?thesis by (simp add: updateOne_def)
      next
        case (Inr p)
        obtain u ds where p: "p = (u, ds)" by (cases p)
        from \<open>findOne rx query c = Inr found\<close> \<open>found = Some doc\<close> Some Inr p assms
        have "r = \<lparr>matchedCount = 1, modifiedCount = 1, document = Some u\<rparr>"
          "c' = saveCollection (rebuildIndexes (c\<lparr>c_data := ds\<rparr>))"
          by (simp_all add: updateOne_def)
        with Some Inr p show ?thesis by blast
      qed
    qed
  qed
qed








section \<open>Unique indexes on insert\<close>

lemma svz_iff: "same_value_zero a b \<longleftrightarrow> a = b \<and> same_value_zero a a"
  by (cases a; cases b) auto

lemma map_has_push: "map_has (map_push m k i) k' = (map_has m k' \<or> same_value_zero k k')"
proof (induction m)
  case Nil
  then show ?case by (simp add: map_has_def)
next
  case (Cons e m)
  obtain k0 ids where e: "e = (k0, ids)" by (cases e)
  show ?case
  proof (cases "same_value_zero k0 k")
    case True
    then have "same_value_zero k k' = same_value_zero k0 k'"
      using svz_iff [of k0 k] svz_iff [of k k'] svz_iff [of k0 k'] by auto
    with True e show ?thesis by (auto simp: map_has_def)
  next
    case False
    with e Cons show ?thesis by (auto simp: map_has_def)
  qed
qed

lemma map_has_foldl:
  "map_has (foldl (\<lambda>m d. let v = getNestedValue (Obj d) field in
                      if v \<noteq> Undefined then map_push m v (doc_id d) else m) m0 ds) k
   = (map_has m0 k \<or> (\<exists>d\<in>set ds. getNestedValue (Obj d) field \<noteq> Undefined
                          \<and> same_value_zero (getNestedValue (Obj d) field) k))"
  by (induction ds arbitrary: m0) (auto simp: Let_def map_has_push)

lemma map_has_build_index:
  "map_has (build_index field ds) k
   = (\<exists>d\<in>set ds. getNestedValue (Obj d) field \<noteq> Undefined
                 \<and> same_value_zero (getNestedValue (Obj d) field) k)"
  unfolding build_index_def map_has_foldl by (simp add: map_has_def)



lemma insertOne_result:
  "insertOne gid now doc c = (r, c') \<Longrightarrow>
     (\<exists>e. r = Inl e \<and> c' = c)
     \<or> (r = Inr (doc_id (new_document gid now doc), new_document gid now doc)
        \<and> c_data c' = c_data c @ [new_document gid now doc])"
  by (auto simp: insertOne_def Let_def saveCollection_def split: if_splits option.splits)


lemma build_index_snoc:
  "build_index field (ds @ [d]) =
     (let v = getNestedValue (Obj d) field in
      if v \<noteq> Undefined then map_push (build_index field ds) v (doc_id d)
      else build_index field ds)"
  by (simp add: build_index_def Let_def)

lemma insertOne_consistent:
  assumes "index_consistent c" "insertOne gid now doc c = (r, c')"
  shows "index_consistent c'"
proof -
  from insertOne_result [OF assms(2)] show ?thesis
  proof
    assume "\<exists>e. r = Inl e \<and> c' = c"
    with assms(1) show ?thesis by auto
  next
    assume "r = Inr (doc_id (new_document gid now doc), new_document gid now doc)
        \<and> c_data c' = c_data c @ [new_document gid now doc]"
    then have c': "c' = saveCollection (c\<lparr>c_data := c_data c @ [new_document gid now doc],
                  c_indexes := map (index_add (new_document gid now doc)) (c_indexes c)\<rparr>)"
      using assms(2) by (auto simp: insertOne_def Let_def split: if_splits option.splits)
    show ?thesis
      using assms(1) unfolding c' index_consistent_def
      by (auto simp: saveCollection_def list_all_iff index_add_def build_index_snoc Let_def
          split: if_splits)
  qed
qed

lemma rebuildIndexes_consistent: "index_consistent (rebuildIndexes c)"
  by (auto simp: index_consistent_def rebuildIndexes_def list_all_iff)

lemmas insert_defs =
  users_def dup_batch_def dup_doc_def insertOne_def new_document_def spread_def js_or_def
  empty_collection_def saveCollection_def doc_id_def createIndex_def build_index_def
  index_add_def map_has_def getNestedValue_def Let_def







section \<open>Uniqueness of \<^verbatim>\<open>_id\<close>\<close>

lemma members_eq:
  "members =
     \<lparr>c_data = [stored ''id1'' ''A'' 10 (Date ''2024-01-12T10:00:00.000Z'') (Date ''2024-01-12T10:00:00.000Z''),
                stored ''id2'' ''B'' 20 (Date ''2024-01-12T10:00:01.000Z'') (Date ''2024-01-12T10:00:01.000Z'')],
      c_indexes = [(''_id'', \<lparr>unique = True, data = [(Str ''id1'', [Str ''id1'']), (Str ''id2'', [Str ''id2''])]\<rparr>)],
      c_dirty = True\<rparr>"
  by (simp add: members_def insert_defs docA_def docB_def stored_def)

text \<open>
  What holds of the other paths: with the unique index on \<^verbatim>\<open>_id\<close> consistent with the
  data, an insert that succeeds keeps the \<^verbatim>\<open>_id\<close>s distinct, and so does
  \<^verbatim>\<open>deleteMany\<close>.
\<close>

lemma getNestedValue_id: "getNestedValue (Obj d) ''_id'' = doc_id d"
  by (simp add: getNestedValue_def doc_id_def)

lemma unique_violation_None:
  "unique_violation ixs newDoc = None \<Longrightarrow> (field, ix) \<in> set ixs \<Longrightarrow> unique ix \<Longrightarrow>
     getNestedValue (Obj newDoc) field = Undefined
     \<or> \<not> map_has (data ix) (getNestedValue (Obj newDoc) field)"
  by (induction ixs) (auto split: if_splits)

lemma insertOne_keeps_ids_distinct:
  assumes cons: "index_consistent c"
    and ix: "(''_id'', ix) \<in> set (c_indexes c)" "unique ix"
    and dist: "distinct (map doc_id (c_data c))"
    and ins: "insertOne gid now doc c = (Inr r, c')"
    and new: "doc_id (new_document gid now doc) \<noteq> Undefined"
      "same_value_zero (doc_id (new_document gid now doc)) (doc_id (new_document gid now doc))"
  shows "distinct (map doc_id (c_data c'))"
proof -
  let ?n = "new_document gid now doc"
  from ins have uv: "unique_violation (c_indexes c) ?n = None"
    and data: "c_data c' = c_data c @ [?n]"
    by (auto simp: insertOne_def Let_def saveCollection_def split: if_splits option.splits)
  have "data ix = build_index ''_id'' (c_data c)"
    using cons ix(1) by (auto simp: index_consistent_def list_all_iff)
  with unique_violation_None [OF uv ix] new(1)
  have "\<not> map_has (build_index ''_id'' (c_data c)) (doc_id ?n)"
    by (simp add: getNestedValue_id)
  then have "\<forall>d\<in>set (c_data c). doc_id d \<noteq> doc_id ?n"
    using new by (auto simp: map_has_build_index getNestedValue_id)
  with dist data show ?thesis by auto
qed

lemma deleteMany_keeps_ids_distinct:
  assumes "distinct (map doc_id (c_data c))" "deleteMany rx query c = Inr (n, c')"
  shows "distinct (map doc_id (c_data c'))"
  using assms
  by (auto simp: deleteMany_def Let_def saveCollection_def rebuildIndexes_def distinct_map_filter
      split: sum.splits if_splits)

text \<open>
  Claim C4: no two documents of a collection have the same \<^verbatim>\<open>_id\<close>, whatever
  operations ran.  The insert path checks the unique index on \<^verbatim>\<open>_id\<close>; the update
  paths only rebuild the indexes.  Here \<^verbatim>\<open>updateOne({name:"B"}, {$set:{_id:"id1"}})\<close>
  succeeds on a collection holding the ids \<^verbatim>\<open>id1\<close> and \<^verbatim>\<open>id2\<close>, and both documents
  then carry \<^verbatim>\<open>id1\<close>.
\<close>

theorem update_duplicates_id:
  "updateOne no_regexp (Date ''2024-01-12T10:00:02.000Z'') q_nameB u_set_id members =
     Inr (\<lparr>matchedCount = 1, modifiedCount = 1,
            document = Some (stored ''id1'' ''B'' 20 (Date ''2024-01-12T10:00:01.000Z'') (Date ''2024-01-12T10:00:02.000Z''))\<rparr>,
          \<lparr>c_data = [stored ''id1'' ''A'' 10 (Date ''2024-01-12T10:00:00.000Z'') (Date ''2024-01-12T10:00:00.000Z''),
                     stored ''id1'' ''B'' 20 (Date ''2024-01-12T10:00:01.000Z'') (Date ''2024-01-12T10:00:02.000Z'')],
           c_indexes = [(''_id'', \<lparr>unique = True, data = [(Str ''id1'', [Str ''id1'', Str ''id1''])]\<rparr>)],
           c_dirty = True\<rparr>)
   \<and> map doc_id [stored ''id1'' ''A'' 10 (Date ''2024-01-12T10:00:00.000Z'') (Date ''2024-01-12T10:00:00.000Z''),
                  stored ''id1'' ''B'' 20 (Date ''2024-01-12T10:00:01.000Z'') (Date ''2024-01-12T10:00:02.000Z'')]
       = [Str ''id1'', Str ''id1'']"
  unfolding members_eq
  by (simp add: scenario_defs q_nameB_def u_set_id_def build_index_def fold_m.simps)

section \<open>Sorting\<close>







lemma mset_insort_cmp: "mset (insort_cmp cmp x ys) = add_mset x (mset ys)"
  by (induction ys) auto


lemma sorted_insort_cmp:
  assumes trans: "\<And>x y z. cmp x y \<le> 0 \<Longrightarrow> cmp y z \<le> 0 \<Longrightarrow> cmp x z \<le> 0"
    and total: "\<And>x y. cmp x y > 0 \<Longrightarrow> cmp y x \<le> 0"
    and "sorted_wrt (\<lambda>x y. cmp x y \<le> 0) ys"
  shows "sorted_wrt (\<lambda>x y. cmp x y \<le> 0) (insort_cmp cmp x ys)"
  using assms(3)
proof (induction ys)
  case Nil
  then show ?case by simp
next
  case (Cons y ys)
  show ?case
  proof (cases "cmp x y > 0")
    case True
    have "set (insort_cmp cmp x ys) = insert x (set ys)"
      using mset_insort_cmp [of cmp x ys] by (metis set_mset_add_mset_insert set_mset_mset)
    with True Cons total show ?thesis by auto
  next
    case False
    with Cons.prems trans show ?thesis by (auto simp: not_less)
  qed
qed

lemma sorted_sort_cmp:
  assumes "\<And>x y z. cmp x y \<le> 0 \<Longrightarrow> cmp y z \<le> 0 \<Longrightarrow> cmp x z \<le> 0"
    and "\<And>x y. cmp x y > 0 \<Longrightarrow> cmp y x \<le> 0"
  shows "sorted_wrt (\<lambda>x y. cmp x y \<le> 0) (sort_cmp cmp xs)"
  unfolding sort_cmp_def
  by (induction xs) (simp_all add: sorted_insort_cmp assms)









section \<open>Grouping\<close>

lemmas group_defs =
  aggregate_def apply_stage_def applyGroup_def group_key_def group_result_def accumulate_def
  is_field_ref_def entries_def two_docs_def holding_def stored_def getNestedValue_def
  js_or_def js_add_def Let_def

text \<open>
  Claim C8: a \<^verbatim>\<open>$group\<close> stage computes every requested accumulator without raising an
  error, and \<^verbatim>\<open>{$sum: 1}\<close> returns the number of documents of each bucket.  The code
  has the branch \<^verbatim>\<open>if (opField === 1)\<close> for the count, but reads
  \<^verbatim>\<open>opField.startsWith('$')\<close> before the switch, and the number 1 has no such method:
  on a collection of two documents the counting pipeline throws a \<^verbatim>\<open>TypeError\<close>, while
  the sum of a field over the same bucket is computed.
\<close>

theorem count_accumulator_throws:
  "aggregate no_regexp count_pipeline two_docs = Inl TypeError
   \<and> aggregate no_regexp total_pipeline two_docs = Inr [[(''_id'', Null), (''total'', Num 30)]]"
  by (simp add: count_pipeline_def total_pipeline_def group_defs)

section \<open>Index narrowing in the query evaluator\<close>

lemma contacts_eq:
  "contacts =
     \<lparr>c_data = [[(''_id'', Str ''id1''), (''name'', Str ''A''), (''email'', Str ''a@tmu.ac.tz''),
                 (''createdAt'', Date ''2024-01-12T10:00:00.000Z''),
                 (''updatedAt'', Date ''2024-01-12T10:00:00.000Z'')],
                [(''_id'', Str ''id2''), (''name'', Str ''B''),
                 (''createdAt'', Date ''2024-01-12T10:00:01.000Z''),
                 (''updatedAt'', Date ''2024-01-12T10:00:01.000Z'')]],
      c_indexes = [(''email'', \<lparr>unique = False, data = [(Str ''a@tmu.ac.tz'', [Str ''id1''])]\<rparr>)],
      c_dirty = True\<rparr>"
  by (simp add: contacts_def insert_defs)

text \<open>
  What holds of the narrowing: on indexes consistent with the data and \<^verbatim>\<open>_id\<close>s that
  are primitives, a filter whose indexed equality value is not \<^verbatim>\<open>undefined\<close> gives
  through the index exactly what the full scan returns, whenever the scan returns.
\<close>

lemma svz_trans: "same_value_zero a b \<Longrightarrow> same_value_zero b c \<Longrightarrow> same_value_zero a c"
  using svz_iff [of a b] svz_iff [of b c] svz_iff [of a c] by auto

lemma svz_left: "same_value_zero a b \<Longrightarrow> same_value_zero a c \<Longrightarrow> same_value_zero b c"
  using svz_iff [of a b] svz_iff [of b c] svz_iff [of a c] by auto

lemma ids_of_push:
  "ids_of (map_push m k i) v = (if same_value_zero k v then ids_of m v @ [i] else ids_of m v)"
proof (induction m)
  case Nil
  then show ?case by (simp add: ids_of_def)
next
  case (Cons e m)
  obtain k0 l where e: "e = (k0, l)" by (cases e)
  show ?case
  proof (cases "same_value_zero k0 k")
    case True
    then have "same_value_zero k0 v = same_value_zero k v"
      using svz_left [of k0 k v] svz_trans [of k0 k v] by blast
    with True e show ?thesis by (simp add: ids_of_def)
  next
    case False
    have "same_value_zero k v \<Longrightarrow> \<not> same_value_zero k0 v"
      using False svz_iff [of k0 v] svz_iff [of k v] svz_iff [of k0 k] by auto
    with False e Cons show ?thesis by (auto simp: ids_of_def)
  qed
qed

lemma ids_of_foldl:
  "set (ids_of (foldl (\<lambda>m d. let v = getNestedValue (Obj d) field in
                      if v \<noteq> Undefined then map_push m v (doc_id d) else m) m0 ds) k)
   = set (ids_of m0 k) \<union> doc_id ` {d \<in> set ds. getNestedValue (Obj d) field \<noteq> Undefined
                                      \<and> same_value_zero (getNestedValue (Obj d) field) k}"
  by (induction ds arbitrary: m0) (auto simp: Let_def ids_of_push)

lemma ids_of_build_index:
  "set (ids_of (build_index field ds) k)
   = doc_id ` {d \<in> set ds. getNestedValue (Obj d) field \<noteq> Undefined
                 \<and> same_value_zero (getNestedValue (Obj d) field) k}"
  unfolding build_index_def ids_of_foldl by (simp add: ids_of_def)

lemma index_clause_Some:
  "index_clause ixs kvs = Some (v, ix) \<Longrightarrow>
     \<exists>field. (field, v) \<in> set kvs \<and> \<not> typeof_object v \<and> map_of ixs field = Some ix"
proof (induction kvs)
  case Nil
  then show ?case by simp
next
  case (Cons e kvs)
  obtain f w where e: "e = (f, w)" by (cases e)
  show ?case
  proof (cases "\<not> typeof_object w \<and> map_of ixs f \<noteq> None")
    case True
    with Cons.prems e have "w = v" "map_of ixs f = Some ix" by auto
    with True e show ?thesis by auto
  next
    case False
    with Cons.prems e have "index_clause ixs kvs = Some (v, ix)" by (auto split: option.splits)
    from Cons.IH [OF this] show ?thesis by auto
  qed
qed

lemma every_m_True: "every_m p xs = Inr True \<Longrightarrow> x \<in> set xs \<Longrightarrow> p x = Inr True"
  by (induction xs) (auto split: sum.splits if_splits)

lemma literal_clause_holds:
  assumes "matchDocument rx doc query = Inr True" "entries query = Inr kvs"
    "(field, v) \<in> set kvs" "\<not> typeof_object v"
  shows "strict_eq (getNestedValue doc field) v"
proof -
  have notobj: "\<not> is_operator_map v" "\<And>xs. v \<noteq> Arr xs"
    using assms(4) by (cases v; simp)+
  let ?p = "\<lambda>(field, condition).
            if field = ''$or'' then
              (case condition of
                 Arr subs \<Rightarrow> some_m (\<lambda>sub. matchDocument rx doc sub) subs
               | _ \<Rightarrow> Inl TypeError)
            else if field = ''$and'' then
              (case condition of
                 Arr subs \<Rightarrow> every_m (\<lambda>sub. matchDocument rx doc sub) subs
               | _ \<Rightarrow> Inl TypeError)
            else
              (let value = getNestedValue doc field in
               if is_operator_map condition then
                 every_m (\<lambda>(op, opValue).
                     if op = ''$elemMatch'' then
                       (case value of
                          Arr els \<Rightarrow> some_m (\<lambda>el. matchDocument rx el opValue) els
                        | _ \<Rightarrow> Inr False)
                     else match_op rx condition value op opValue)
                   (own_entries condition)
               else Inr (match_literal value condition))"
  have "every_m ?p kvs = Inr True"
    using assms(1,2) by (subst (asm) matchDocument.simps) simp
  from every_m_True [OF this assms(3)] have p: "?p (field, v) = Inr True" .
  have "match_literal (getNestedValue doc field) v"
    using p notobj by (cases v) (auto simp: Let_def split: if_splits)
  then show ?thesis using notobj by (cases v) auto
qed

lemma filter_m_narrow:
  assumes "filter_m p xs = Inr r" "\<And>x. x \<in> set xs \<Longrightarrow> p x = Inr True \<Longrightarrow> keep x"
  shows "filter_m p (filter keep xs) = Inr r"
  using assms
proof (induction xs arbitrary: r)
  case Nil
  then show ?case by simp
next
  case (Cons x xs)
  from Cons.prems(1) obtain b ys where
    px: "p x = Inr b" and rest: "filter_m p xs = Inr ys" and r: "r = (if b then x # ys else ys)"
    by (auto split: sum.splits)
  have ih: "filter_m p (filter keep xs) = Inr ys"
    using Cons.IH [OF rest] Cons.prems(2) by simp
  show ?case
  proof (cases "keep x")
    case True
    with px ih r show ?thesis by simp
  next
    case False
    then have "\<not> b" using Cons.prems(2) [of x] px by auto
    with False ih r show ?thesis by simp
  qed
qed

lemma index_narrowing_transparent:
  assumes cons: "index_consistent c"
    and ids: "\<And>d. d \<in> set (c_data c) \<Longrightarrow> same_value_zero (doc_id d) (doc_id d)"
    and kvs: "entries query = Inr kvs"
    and cl: "index_clause (c_indexes c) kvs = Some (v, ix)"
    and v: "v \<noteq> Undefined"
    and scan: "filter_m (\<lambda>d. matchDocument rx (Obj d) query) (c_data c) = Inr r"
  shows "matchQuery rx query c = Inr r"
proof -
  from index_clause_Some [OF cl] obtain field where
    f: "(field, v) \<in> set kvs" "\<not> typeof_object v" "map_of (c_indexes c) field = Some ix" by blast
  then have "(field, ix) \<in> set (c_indexes c)" by (simp add: map_of_SomeD)
  then have ix: "data ix = build_index field (c_data c)"
    using cons by (auto simp: index_consistent_def list_all_iff)
  let ?ids = "case map_get (data ix) v of Some l \<Rightarrow> l | None \<Rightarrow> []"
  let ?keep = "\<lambda>d. list_ex (\<lambda>i. same_value_zero i (doc_id d)) ?ids"
  have keep: "?keep d" if d: "d \<in> set (c_data c)" and m: "matchDocument rx (Obj d) query = Inr True" for d
  proof -
    have se: "strict_eq (getNestedValue (Obj d) field) v"
      using literal_clause_holds [OF m kvs f(1,2)] .
    then have eq: "getNestedValue (Obj d) field = v" using strict_eq_iff by blast
    have "same_value_zero (getNestedValue (Obj d) field) v"
      using se by (cases "getNestedValue (Obj d) field"; cases v) auto
    with d eq v have "doc_id d \<in> set (ids_of (build_index field (c_data c)) v)"
      unfolding ids_of_build_index by auto
    then have "doc_id d \<in> set ?ids" using ix by (simp add: ids_of_def)
    with ids [OF d] show ?thesis by (auto simp: list_ex_iff)
  qed
  have "kvs \<noteq> []" using f(1) by auto
  moreover have "filter_m (\<lambda>d. matchDocument rx (Obj d) query) (filter ?keep (c_data c)) = Inr r"
    by (rule filter_m_narrow [OF scan]) (rule keep)
  ultimately show ?thesis using kvs cl by (simp add: matchQuery_def Let_def)
qed

text \<open>
  Claim C5: the query evaluator returns the same documents whether or not a filtered
  field is indexed.  \<^verbatim>\<open>_matchQuery\<close> narrows through the index for every condition
  whose value is not of type object, \<^verbatim>\<open>undefined\<close> included, and an index holds no
  entry for \<^verbatim>\<open>undefined\<close>.  With the filter \<^verbatim>\<open>{email: undefined}\<close> the full scan
  returns the document that has no \<^verbatim>\<open>email\<close>, and the indexed evaluation, on an index
  consistent with the data, returns nothing.
\<close>

theorem index_hides_missing_field:
  "index_consistent contacts
   \<and> matchQuery no_regexp q_no_email contacts = Inr []
   \<and> matchQuery no_regexp q_no_email (contacts\<lparr>c_indexes := []\<rparr>) =
       Inr [[(''_id'', Str ''id2''), (''name'', Str ''B''),
             (''createdAt'', Date ''2024-01-12T10:00:01.000Z''),
             (''updatedAt'', Date ''2024-01-12T10:00:01.000Z'')]]"
  unfolding contacts_eq
  by (simp add: index_consistent_def insert_defs q_no_email_def matchQuery_def entries_def
      matchDocument.simps)

section \<open>Flushing and reloading\<close>









lemma insertOne_marks_dirty: "insertOne gid now doc c = (Inr r, c') \<Longrightarrow> c_dirty c'"
  by (auto simp: insertOne_def Let_def saveCollection_def split: if_splits option.splits)

lemma updateOne_marks_dirty:
  "updateOne rx now query update c = Inr (r, c') \<Longrightarrow> matchedCount r = 1 \<Longrightarrow> c_dirty c'"
  using updateOne_cases [of rx now query update c r c']
  by (auto simp: saveCollection_def)

lemma deleteMany_marks_dirty:
  "deleteMany rx query c = Inr (n, c') \<Longrightarrow> n > 0 \<Longrightarrow> c_dirty c'"
  by (auto simp: deleteMany_def Let_def saveCollection_def split: sum.splits if_splits)







section \<open>Validation in \<^verbatim>\<open>Model.create\<close>\<close>

text \<open>
  What holds of the validation: it runs before the insert, so a validation failure leaves
  the collection as it was, and the error it throws holds the violations recorded for
  every field of the schema.
\<close>

lemma validate_before_insert:
  assumes "fold_m (\<lambda>d h. h d) (transform sch (applyDefaults sch item)) (preSave sch) = Inr doc"
    and "validate date_parses sch doc = Inl e"
  shows "create date_parses sch gid now item c = (Inl e, c)"
  using assms by (simp add: create_def)

lemma validate_collects:
  assumes "map_m (field_errors date_parses doc) (definition_of sch) = Inr ess" "concat ess \<noteq> []"
  shows "validate date_parses sch doc = Inl (ValidationError (concat ess))"
  using assms by (simp add: validate_def)

lemma map_m_length: "map_m f xs = Inr ys \<Longrightarrow> length ys = length xs"
  by (induction xs arbitrary: ys) (auto split: sum.splits)

lemma map_m_nth: "map_m f xs = Inr ys \<Longrightarrow> i < length xs \<Longrightarrow> f (xs ! i) = Inr (ys ! i)"
proof (induction xs arbitrary: ys i)
  case Nil
  then show ?case by simp
next
  case (Cons x xs)
  then show ?case by (cases i) (auto split: sum.splits)
qed

lemma js_includes_error: "js_includes a v = Inl e \<Longrightarrow> e = TypeError"
  by (cases a) auto

lemma field_errors_error: "field_errors date_parses doc fr = Inl e \<Longrightarrow> e = TypeError"
  by (cases fr)
     (auto simp: field_errors_def enum_errors_def js_join_def Let_def
        split: option.splits if_splits sum.splits bool.splits jv.splits
        dest: js_includes_error)

lemma map_m_error: "map_m f xs = Inl e \<Longrightarrow> \<exists>x\<in>set xs. f x = Inl e"
  by (induction xs) (auto split: sum.splits)

lemma validate_reports_every_field:
  assumes "validate date_parses sch doc = Inl (ValidationError es)"
    and "i < length (definition_of sch)"
    and "field_errors date_parses doc (definition_of sch ! i) = Inr fs"
  shows "set fs \<subseteq> set es"
proof -
  from assms(1) obtain ess where
    m: "map_m (field_errors date_parses doc) (definition_of sch) = Inr ess" and es: "es = concat ess"
    by (auto simp: validate_def split: sum.splits if_splits
        dest!: map_m_error field_errors_error)
  have "ess ! i = fs" using map_m_nth [OF m assms(2)] assms(3) by simp
  moreover have "i < length ess" using map_m_length [OF m] assms(2) by simp
  ultimately have "fs \<in> set ess" using nth_mem by blast
  then show ?thesis using es by auto
qed

text \<open>
  Claim C6: if any field violates a rule, \<^verbatim>\<open>Model.create\<close> fails with one aggregate
  validation error holding every violation, before anything is inserted.  \<^verbatim>\<open>_validate\<close>
  compares \<^verbatim>\<open>value.length\<close> with the rule itself.  The validator reads the pair of a
  value and a message for \<^verbatim>\<open>required\<close> and \<^verbatim>\<open>match\<close>, and the schemas of the
  repository write their length bounds as such pairs; the comparison of a number with
  the pair is always \<^verbatim>\<open>false\<close>.  A name of eight characters under the bound
  \<^verbatim>\<open>[5, message]\<close> passes validation and is inserted, while the bound \<^verbatim>\<open>5\<close> rejects
  it and leaves the collection unchanged.
\<close>

theorem length_bound_with_message_not_enforced:
  "create no_date_parse (name_schema bound_with_message) (Str ''id1'')
       (Date ''2024-01-12T10:00:00.000Z'') long_name (model_collection [] empty_collection)
     = (Inr [(''_id'', Str ''id1''), (''name'', Str ''abcdefgh''),
             (''createdAt'', Date ''2024-01-12T10:00:00.000Z''),
             (''updatedAt'', Date ''2024-01-12T10:00:00.000Z'')],
        \<lparr>c_data = [[(''_id'', Str ''id1''), (''name'', Str ''abcdefgh''),
                    (''createdAt'', Date ''2024-01-12T10:00:00.000Z''),
                    (''updatedAt'', Date ''2024-01-12T10:00:00.000Z'')]],
         c_indexes = [(''_id'', \<lparr>unique = True, data = [(Str ''id1'', [Str ''id1''])]\<rparr>)],
         c_dirty = True\<rparr>)
   \<and> create no_date_parse (name_schema (Num 5)) (Str ''id1'')
       (Date ''2024-01-12T10:00:00.000Z'') long_name (model_collection [] empty_collection)
     = (Inl (ValidationError [(''name'', Str ''name cannot exceed 5 characters'')]),
        \<lparr>c_data = [], c_indexes = [(''_id'', \<lparr>unique = True, data = []\<rparr>)], c_dirty = False\<rparr>)"
  by code_simp

section \<open>Atomicity of an update\<close>

text \<open>
  Claim C2: an update is atomic for the caller; when applying a later operator fails, the
  old document, nested arrays included, is left untouched.  The update
  \<^verbatim>\<open>{$push: {tags: "b", n: 1}}\<close> on \<^verbatim>\<open>{_id: "id1", tags: ["a"], n: 5}\<close> first pushes
  \<^verbatim>\<open>"b"\<close> onto the array that the copy shares with the stored document and then throws
  on \<^verbatim>\<open>n\<close>, a number, which has no \<^verbatim>\<open>push\<close>.  The call fails, the collection still
  holds the old document at its address, and that document now has the tags
  \<^verbatim>\<open>["a", "b"]\<close>.
\<close>

theorem failed_update_changes_old_document:
  "h_documents tagged =
     [Some (Obj [(''_id'', Str ''id1''), (''tags'', Arr [Str ''a'']), (''n'', Num 5)])]
   \<and> fst (h_updateOne no_regexp (Date ''2024-01-12T10:00:02.000Z'') q_id1 (Ref 2) tagged)
     = Inl TypeError
   \<and> hc_data (snd (h_updateOne no_regexp (Date ''2024-01-12T10:00:02.000Z'') q_id1 (Ref 2) tagged))
     = hc_data tagged
   \<and> h_documents (snd (h_updateOne no_regexp (Date ''2024-01-12T10:00:02.000Z'') q_id1 (Ref 2) tagged))
     = [Some (Obj [(''_id'', Str ''id1''), (''tags'', Arr [Str ''a'', Str ''b'']), (''n'', Num 5)])]"
  by code_simp

end
